theory Spec2Isabelle
  imports Complex_Main "HOL-Library.Multiset"
begin

section \<open>Values shared by the components\<close>

text \<open>
  A JavaScript exception is a value: its constructor and its message.  Every \<open>throw\<close>,
  every rejected promise and every runtime error of the source is a branch \<open>Inl e\<close> of a
  result of type \<open>error + 'a\<close>; an \<open>await\<close> on a rejected promise is the same branch.
\<close>

datatype error = Error string | TypeError string | ReferenceError string

fun message :: "error \<Rightarrow> string" where
  "message (Error m) = m"
| "message (TypeError m) = m"
| "message (ReferenceError m) = m"

text \<open>
  Values produced by \<open>JSON.parse\<close>.  A number is kept as the literal that denotes it; an
  object is the list of its properties in insertion order.
\<close>

datatype json =
    JNull
  | JBool bool
  | JNumber string
  | JString string
  | JArray "json list"
  | JObject "(string \<times> json) list"

section \<open>Model: the state store (server/core/frameworks/mcp/model.js)\<close>

record message_entry =
  role :: string
  content :: string

text \<open>An entry of \<open>state.sources\<close>, in the shape the search tool returns.\<close>

record source_item =
  title :: string
  url :: string
  source :: string
  snippet :: string

text \<open>
  \<open>this.state\<close> as \<open>initializeState\<close> builds it.  \<open>finalAnswer\<close> is \<open>null\<close> (\<open>None\<close>)
  until it is set; the field \<open>context\<close> of the source is \<open>ctxt\<close> here.
\<close>

record state =
  query :: string
  conversation :: "message_entry list"
  ctxt :: "(string \<times> json) list"
  sources :: "source_item list"
  iterations :: nat
  finalAnswer :: "string option"

text \<open>
  The argument of \<open>updateState\<close>: an object that may carry any of the state's keys.
  \<open>None\<close> is an absent key.
\<close>

record updates =
  u_query :: "string option"
  u_conversation :: "message_entry list option"
  u_ctxt :: "(string \<times> json) list option"
  u_sources :: "source_item list option"
  u_iterations :: "nat option"
  u_finalAnswer :: "string option option"

definition no_updates :: updates where
  "no_updates = \<lparr>u_query = None, u_conversation = None, u_ctxt = None, u_sources = None,
     u_iterations = None, u_finalAnswer = None\<rparr>"

definition initializeState :: "string \<Rightarrow> (string \<times> json) list \<Rightarrow> state" where
  "initializeState q c =
     \<lparr>query = q,
      conversation = [\<lparr>role = ''user'', content = q\<rparr>],
      ctxt = c,
      sources = [],
      iterations = 0,
      finalAnswer = None\<rparr>"

text \<open>\<open>Array.prototype.findIndex\<close>: the index of the first element satisfying \<open>P\<close>, or \<open>-1\<close>.\<close>

fun findIndex :: "('a \<Rightarrow> bool) \<Rightarrow> 'a list \<Rightarrow> int" where
  "findIndex P [] = - 1"
| "findIndex P (x # xs) =
     (if P x then 0 else (let i = findIndex P xs in if i < 0 then - 1 else i + 1))"

text \<open>
  \<open>self.filter((source, index, self) => index === self.findIndex((s) => s.url === source.url))\<close>,
  used by \<open>updateState\<close> and again by \<open>formatResponse\<close>.
\<close>

definition uniqueByUrl :: "('a source_item_scheme) list \<Rightarrow> ('a source_item_scheme) list" where
  "uniqueByUrl self =
     map snd (filter (\<lambda>(index, src). int index = findIndex (\<lambda>s. url s = url src) self)
                     (enumerate 0 self))"

text \<open>The object spread \<open>{ ...this.state, ...updates }\<close>: a key of \<open>updates\<close> wins.\<close>

definition spread :: "state \<Rightarrow> updates \<Rightarrow> state" where
  "spread st u =
     \<lparr>query = (case u_query u of None \<Rightarrow> query st | Some v \<Rightarrow> v),
      conversation = (case u_conversation u of None \<Rightarrow> conversation st | Some v \<Rightarrow> v),
      ctxt = (case u_ctxt u of None \<Rightarrow> ctxt st | Some v \<Rightarrow> v),
      sources = (case u_sources u of None \<Rightarrow> sources st | Some v \<Rightarrow> v),
      iterations = (case u_iterations u of None \<Rightarrow> iterations st | Some v \<Rightarrow> v),
      finalAnswer = (case u_finalAnswer u of None \<Rightarrow> finalAnswer st | Some v \<Rightarrow> v)\<rparr>"

text \<open>
  \<open>updateState\<close>.  The spread has already put \<open>updates.sources\<close> into \<open>this.state.sources\<close>
  when the merge \<open>[...this.state.sources, ...updates.sources]\<close> reads it, so the merge
  below reads the sources of the spread state \<open>st1\<close>, as the code does.
\<close>

definition updateState :: "state \<Rightarrow> updates \<Rightarrow> state" where
  "updateState st u =
     (let st1 = spread st u
      in case u_sources u of
           None \<Rightarrow> st1
         | Some new \<Rightarrow>
             (let st2 = st1\<lparr>sources := sources st1 @ new\<rparr>
              in st2\<lparr>sources := uniqueByUrl (sources st2)\<rparr>))"

definition addObservation :: "state \<Rightarrow> string \<Rightarrow> string \<Rightarrow> state" where
  "addObservation st observation actionName =
     st\<lparr>conversation := conversation st @
        [\<lparr>role = ''system'',
          content = ''Observation from '' @ actionName @ '': '' @ observation\<rparr>]\<rparr>"

definition addReasoning :: "state \<Rightarrow> string \<Rightarrow> state" where
  "addReasoning st thought =
     st\<lparr>conversation := conversation st @
        [\<lparr>role = ''system'', content = ''Thinking: '' @ thought\<rparr>]\<rparr>"

definition setFinalAnswer :: "state \<Rightarrow> string \<Rightarrow> state" where
  "setFinalAnswer st answer =
     st\<lparr>finalAnswer := Some answer,
        conversation := conversation st @ [\<lparr>role = ''assistant'', content = answer\<rparr>]\<rparr>"

section \<open>The completion service (server/services/llm/claude-client.js)\<close>

text \<open>
  The option values a caller may pass are JavaScript values; \<open>||\<close> tests their truthiness.
  \<open>VUndefined\<close> is an absent key.
\<close>

datatype jsval = VUndefined | VNull | VBool bool | VNum real | VNaN | VStr string

fun truthy :: "jsval \<Rightarrow> bool" where
  "truthy VUndefined = False"
| "truthy VNull = False"
| "truthy (VBool b) = b"
| "truthy (VNum x) = (x \<noteq> 0)"
| "truthy VNaN = False"
| "truthy (VStr s) = (s \<noteq> [])"

text \<open>\<open>a || b\<close>.\<close>

definition js_or :: "jsval \<Rightarrow> jsval \<Rightarrow> jsval" where
  "js_or a b = (if truthy a then a else b)"

record options =
  model :: jsval
  maxTokens :: jsval
  temperature :: jsval
  systemPrompt :: jsval

text \<open>An options object with only \<open>maxTokens\<close> and \<open>temperature\<close>, as the callers write it.\<close>

definition tokens_and_temperature :: "real \<Rightarrow> real \<Rightarrow> options" where
  "tokens_and_temperature n t =
     \<lparr>model = VUndefined, maxTokens = VNum n, temperature = VNum t, systemPrompt = VUndefined\<rparr>"

record usage =
  promptTokens :: nat
  completionTokens :: nat
  totalTokens :: nat

text \<open>What \<open>complete\<close> resolves to; the field \<open>text\<close> of the source is \<open>reply_text\<close> here.\<close>

record completion =
  reply_text :: string
  usage :: usage

text \<open>The \<open>ClaudeClient\<close> instance: the three defaults its constructor reads from the configuration.\<close>

record client =
  defaultModel :: jsval
  defaultMaxTokens :: jsval
  defaultTemperature :: jsval

text \<open>The argument of \<open>anthropic.messages.create\<close>, for a prompt of type \<open>'p\<close>.\<close>

record 'p api_request =
  req_model :: jsval
  max_tokens :: jsval
  req_temperature :: jsval
  system :: jsval
  messages :: "(string \<times> 'p) list"

text \<open>
  What the SDK call resolves to: the texts of the content blocks, and the token counts of
  \<open>response.usage\<close>.
\<close>

record api_response =
  content_texts :: "string list"
  input_tokens :: nat
  output_tokens :: nat

text \<open>The first half of \<open>complete\<close>: the effective parameters and the request built from them.\<close>

definition complete_request :: "client \<Rightarrow> 'p \<Rightarrow> options \<Rightarrow> 'p api_request" where
  "complete_request c prompt opts =
     (let model_v = js_or (model opts) (defaultModel c);
          maxTokens_v = js_or (maxTokens opts) (defaultMaxTokens c);
          temperature_v = js_or (temperature opts) (defaultTemperature c)
      in \<lparr>req_model = model_v,
          max_tokens = maxTokens_v,
          req_temperature = temperature_v,
          system = js_or (systemPrompt opts)
            (VStr ''You are a helpful assistant that provides accurate and detailed information.''),
          messages = [(''user'', prompt)]\<rparr>)"

text \<open>
  \<open>complete\<close>, with the SDK call as the parameter \<open>create\<close>.  Reading \<open>response.content[0].text\<close>
  of an empty content list raises inside the \<open>try\<close>; every error is rethrown wrapped.
\<close>

definition complete ::
  "client \<Rightarrow> ('p api_request \<Rightarrow> error + api_response) \<Rightarrow> 'p \<Rightarrow> options \<Rightarrow> error + completion" where
  "complete c create prompt opts =
     (case create (complete_request c prompt opts) of
        Inl e \<Rightarrow> Inl (Error (''Failed to get completion from Claude: '' @ message e))
      | Inr response \<Rightarrow>
          (case content_texts response of
             [] \<Rightarrow> Inl (Error (''Failed to get completion from Claude: '' @
                     ''Cannot read properties of undefined (reading 'text')''))
           | t # _ \<Rightarrow>
               Inr \<lparr>reply_text = t,
                    usage = \<lparr>promptTokens = input_tokens response,
                             completionTokens = output_tokens response,
                             totalTokens = input_tokens response + output_tokens response\<rparr>\<rparr>))"

section \<open>WebSearchTool (server/core/tools/web-search.js)\<close>

text \<open>A result of one source: the four fields of a source entry and its relevance score.\<close>

record search_result = source_item +
  relevance :: real

text \<open>The description of a tool that \<open>listTools\<close> hands to the planner.\<close>

record tool_desc =
  tool_name :: string
  description :: string
  parameters :: "string list"

text \<open>
  A prompt is represented by the values the source interpolates into its template text:
  the planning prompt by the state and the tool descriptions, the answer prompt by the
  state, the summary prompt by the results and the query.  The rendered text is a function
  of these values, so a completion service that is a function of them covers every service
  that is a function of the text.
\<close>

datatype prompt =
    PlanningPrompt state "tool_desc list"
  | AnswerPrompt state
  | SummaryPrompt "search_result list" string

type_synonym llm = "prompt \<Rightarrow> options \<Rightarrow> error + completion"

text \<open>
  \<open>Array.prototype.sort(comparefn)\<close>, which ECMAScript 2019 requires to be stable: for a
  consistent comparator the result is the one of inserting each element, from the last to
  the first, before the first element it need not follow.
\<close>

fun sort_insert :: "('a \<Rightarrow> 'a \<Rightarrow> real) \<Rightarrow> 'a \<Rightarrow> 'a list \<Rightarrow> 'a list" where
  "sort_insert cmp x [] = [x]"
| "sort_insert cmp x (y # ys) =
     (if cmp x y \<le> 0 then x # y # ys else y # sort_insert cmp x ys)"

definition array_sort :: "('a \<Rightarrow> 'a \<Rightarrow> real) \<Rightarrow> 'a list \<Rightarrow> 'a list" where
  "array_sort cmp xs = foldr (sort_insert cmp) xs []"

definition rankResults :: "search_result list \<Rightarrow> string \<Rightarrow> search_result list" where
  "rankResults results q = array_sort (\<lambda>a b. relevance b - relevance a) results"

definition summarizeResults :: "llm \<Rightarrow> search_result list \<Rightarrow> string \<Rightarrow> string" where
  "summarizeResults claudeClient results q =
     (case claudeClient (SummaryPrompt results q) (tokens_and_temperature 300 0.2) of
        Inr response \<Rightarrow> reply_text response
      | Inl e \<Rightarrow> ''Unable to generate summary due to an error.'')"

text \<open>Decimal rendering of a count inside a template string.\<close>

function show_nat :: "nat \<Rightarrow> string" where
  "show_nat n =
     (if n < 10 then [''0123456789'' ! n]
      else show_nat (n div 10) @ [''0123456789'' ! (n mod 10)])"
  by pat_completeness auto
termination
  by (relation "measure (\<lambda>n. n)") auto

declare show_nat.simps [simp del]

text \<open>\<open>Array.prototype.join\<close> on strings.\<close>

fun join :: "string \<Rightarrow> string list \<Rightarrow> string" where
  "join sep [] = []"
| "join sep [x] = x"
| "join sep (x # y # ys) = x @ sep @ join sep (y # ys)"

text \<open>
  What a tool resolves to.  \<open>result_sources\<close> and \<open>result_error\<close> are the keys \<open>sources\<close> and
  \<open>error\<close> of the source; \<open>None\<close> is an absent key.
\<close>

record action_result =
  observation :: string
  result_sources :: "source_item list option"
  result_error :: "string option"

text \<open>
  The parameters of the search tool as the tool advertises them (\<open>query\<close>, \<open>sources\<close>),
  each possibly absent, and the second argument the controller passes to a tool.
\<close>

record search_params =
  p_query :: "string option"
  p_sources :: "string list option"

record tool_context =
  c_query :: string
  c_context :: "(string \<times> json) list"

definition as_source_item :: "search_result \<Rightarrow> source_item" where
  "as_source_item result =
     \<lparr>title = title result, url = url result, source = source result, snippet = snippet result\<rparr>"

text \<open>
  The first two lines of \<open>execute\<close>: \<open>params.query || context.query\<close>, where an empty
  string is falsy, and \<open>params.sources || [...]\<close>, where an array is truthy even when empty.
\<close>

definition effectiveQuery :: "search_params \<Rightarrow> tool_context \<Rightarrow> string" where
  "effectiveQuery params context =
     (case p_query params of
        Some v \<Rightarrow> if v \<noteq> [] then v else c_query context
      | None \<Rightarrow> c_query context)"

definition effectiveSources :: "search_params \<Rightarrow> string list" where
  "effectiveSources params =
     (case p_sources params of
        Some v \<Rightarrow> v
      | None \<Rightarrow> [''zoomCommunity'', ''zoomSupport'', ''google''])"

text \<open>
  \<open>WebSearchTool.execute\<close>.  The per-source fetch \<open>searchSource\<close> is a parameter: an \<open>async\<close>
  method whose promise is fulfilled with a list of results (\<open>Inr\<close>) or rejected (\<open>Inl\<close>);
  \<open>Promise.allSettled\<close> keeps every outcome, in the order of \<open>sources\<close>.  The results are
  objects, which \<open>filter(Boolean)\<close> keeps.  No step inside the \<open>try\<close> can raise on these
  types, so the \<open>catch\<close> of the source has no branch here.
\<close>

definition WebSearchTool_execute ::
  "(string \<Rightarrow> string \<Rightarrow> error + search_result list) \<Rightarrow> llm \<Rightarrow>
   search_params \<Rightarrow> tool_context \<Rightarrow> error + action_result" where
  "WebSearchTool_execute searchSource claudeClient params context =
     (let q = effectiveQuery params context;
          srcs = effectiveSources params;
          searchResults = map (\<lambda>src. searchSource src q) srcs;
          allResults = concat (map (\<lambda>result. case result of Inr v \<Rightarrow> v | Inl reason \<Rightarrow> [])
                                   searchResults);
          sortedResults = rankResults allResults q;
          topResults = take 5 sortedResults;
          summary = (if length topResults > 0 then summarizeResults claudeClient topResults q
                     else [])
      in Inr \<lparr>observation =
                ''Found '' @ show_nat (length allResults) @ '' results across '' @
                show_nat (length srcs) @ '' sources. Top results:'' @ [CHR 0x0A] @
                join [CHR 0x0A]
                  (map (\<lambda>(i, r). show_nat (i + 1) @ ''. '' @ title r @ '' ('' @ source r @ '')'')
                       (enumerate 0 topResults)) @
                [CHR 0x0A, CHR 0x0A] @ ''Summary: '' @ summary,
              result_sources = Some (map as_source_item topResults),
              result_error = None\<rparr>)"

section \<open>Planner (server/core/frameworks/mcp/planner.js)\<close>

subsection \<open>The string operations the parser uses\<close>

text \<open>
  A string is a list of 8-bit code units; \<open>codeUnit\<close> (below) is the number of one.
  \<open>startsWith p cs\<close>: \<open>p\<close> is a prefix of \<open>cs\<close>.
\<close>

fun startsWith :: "string \<Rightarrow> string \<Rightarrow> bool" where
  "startsWith [] cs = True"
| "startsWith (p # ps) [] = False"
| "startsWith (p # ps) (c # cs) = (p = c \<and> startsWith ps cs)"

text \<open>\<open>String.prototype.includes\<close>.\<close>

fun str_includes :: "string \<Rightarrow> string \<Rightarrow> bool" where
  "str_includes [] p = (p = [])"
| "str_includes (c # cs) p = (startsWith p (c # cs) \<or> str_includes cs p)"

text \<open>
  The white space of \<open>String.prototype.trim\<close> and of the regular-expression class \<open>\s\<close>
  among the 8-bit code units: TAB, LF, VT, FF, CR, SP and NBSP.
\<close>

definition isSpace :: "char \<Rightarrow> bool" where
  "isSpace c = (c \<in> {CHR 0x09, CHR 0x0A, CHR 0x0B, CHR 0x0C, CHR 0x0D, CHR 0x20, CHR 0xA0})"

definition trim :: "string \<Rightarrow> string" where
  "trim s = rev (dropWhile isSpace (rev (dropWhile isSpace s)))"

text \<open>
  \<open>toLowerCase\<close> on one code unit, for the letters \<open>A\<close> to \<open>Z\<close>; this is also the only
  folding the flag \<open>i\<close> of a regular expression applies to a pattern of ASCII letters.
\<close>

definition codeUnit :: "char \<Rightarrow> nat" where
  "codeUnit c = of_char c"

definition lowerChar :: "char \<Rightarrow> char" where
  "lowerChar c =
     (if 65 \<le> codeUnit c \<and> codeUnit c \<le> 90
      then ''abcdefghijklmnopqrstuvwxyz'' ! (codeUnit c - 65) else c)"

definition toLowerCase :: "string \<Rightarrow> string" where
  "toLowerCase s = map lowerChar s"

text \<open>
  A regular expression \<open>/LABEL(.*?)(?=STOP1|STOP2|$)/s\<close> matches at the leftmost \<open>LABEL\<close>;
  its lazy group is the shortest text after the label that is followed by one of the stops
  or by the end of the input.  \<open>afterFirst\<close> is the text after the leftmost label (\<open>None\<close>:
  no match), \<open>lazyUntil\<close> the group.
\<close>

fun afterFirst :: "string \<Rightarrow> string \<Rightarrow> string option" where
  "afterFirst label [] = (if label = [] then Some [] else None)"
| "afterFirst label (c # cs) =
     (if startsWith label (c # cs) then Some (drop (length label) (c # cs))
      else afterFirst label cs)"

fun lazyUntil :: "string list \<Rightarrow> string \<Rightarrow> string" where
  "lazyUntil stops [] = []"
| "lazyUntil stops (c # cs) =
     (if list_ex (\<lambda>s. startsWith s (c # cs)) stops then [] else c # lazyUntil stops cs)"

definition matchGroup :: "string \<Rightarrow> string list \<Rightarrow> string \<Rightarrow> string option" where
  "matchGroup label stops response = map_option (lazyUntil stops) (afterFirst label response)"

text \<open>
  \<open>/Final Answer:\s*(true|false)/i\<close>: the group of the leftmost match.  At one position the
  label is compared case-insensitively, the greedy \<open>\s*\<close> takes all the white space that
  follows (giving some back cannot help: the word would have to start with white space),
  then one of the two words follows, case-insensitively.  \<open>startsWithIgnoringCase p cs\<close>
  compares the lower-case pattern \<open>p\<close> with the beginning of \<open>cs\<close>.
\<close>

fun startsWithIgnoringCase :: "string \<Rightarrow> string \<Rightarrow> bool" where
  "startsWithIgnoringCase [] cs = True"
| "startsWithIgnoringCase (p # ps) [] = False"
| "startsWithIgnoringCase (p # ps) (c # cs) =
     (if lowerChar c = p then startsWithIgnoringCase ps cs else False)"

definition finalAnswerAt :: "string \<Rightarrow> string option" where
  "finalAnswerAt cs =
     (if startsWithIgnoringCase ''final answer:'' cs then
        (let rest = dropWhile isSpace (drop 13 cs)
         in if startsWithIgnoringCase ''true'' rest then Some (take 4 rest)
            else if startsWithIgnoringCase ''false'' rest then Some (take 5 rest)
            else None)
      else None)"

fun finalAnswerMatch :: "string \<Rightarrow> string option" where
  "finalAnswerMatch [] = None"
| "finalAnswerMatch (c # cs) =
     (case finalAnswerAt (c # cs) of Some g \<Rightarrow> Some g | None \<Rightarrow> finalAnswerMatch cs)"

text \<open>
  \<open>paramsText.replace(/```json|```/g, "")\<close>: scanning from the left, a fence with the word
  \<open>json\<close> is removed whole, else a bare fence; the first argument counts the code units of
  a match still to skip.
\<close>

fun removeFences :: "nat \<Rightarrow> string \<Rightarrow> string" where
  "removeFences n [] = []"
| "removeFences (Suc n) (c # cs) = removeFences n cs"
| "removeFences 0 (c # cs) =
     (if startsWith ''```json'' (c # cs) then removeFences 6 cs
      else if startsWith ''```'' (c # cs) then removeFences 2 cs
      else c # removeFences 0 cs)"

text \<open>\<open>String.prototype.split\<close> with a separator of one code unit.\<close>

fun str_split :: "char \<Rightarrow> string \<Rightarrow> string list" where
  "str_split sep [] = [[]]"
| "str_split sep (c # cs) =
     (if c = sep then [] # str_split sep cs
      else (case str_split sep cs of [] \<Rightarrow> [[c]] | p # ps \<Rightarrow> (c # p) # ps))"

text \<open>
  Writing a property of an object: an existing key keeps its place, a new key goes last.
\<close>

fun setProperty :: "(string \<times> 'v) list \<Rightarrow> string \<Rightarrow> 'v \<Rightarrow> (string \<times> 'v) list" where
  "setProperty [] k v = [(k, v)]"
| "setProperty ((k', v') # ps) k v =
     (if k' = k then (k, v) # ps else (k', v') # setProperty ps k v)"

subsection \<open>\<open>JSON.parse\<close>\<close>

text \<open>
  The runtime's \<open>JSON.parse\<close> on texts of 8-bit code units, by recursive descent over the
  JSON grammar.  \<open>None\<close> is the \<open>SyntaxError\<close> it raises.  An escape \<open>\uXXXX\<close> above \<open>00FF\<close>
  denotes a code unit that these strings do not have; the model covers the texts without
  such escapes.
\<close>

definition jsonSpace :: "char \<Rightarrow> bool" where
  "jsonSpace c = (c \<in> {CHR 0x20, CHR 0x09, CHR 0x0A, CHR 0x0D})"

definition isDigit :: "char \<Rightarrow> bool" where
  "isDigit c = (48 \<le> codeUnit c \<and> codeUnit c \<le> 57)"

definition hexValue :: "char \<Rightarrow> nat option" where
  "hexValue c =
     (if 48 \<le> codeUnit c \<and> codeUnit c \<le> 57 then Some (codeUnit c - 48)
      else if 97 \<le> codeUnit c \<and> codeUnit c \<le> 102 then Some (codeUnit c - 87)
      else if 65 \<le> codeUnit c \<and> codeUnit c \<le> 70 then Some (codeUnit c - 55)
      else None)"

definition hex4 :: "char \<Rightarrow> char \<Rightarrow> char \<Rightarrow> char \<Rightarrow> nat option" where
  "hex4 a b c d =
     (case (hexValue a, hexValue b, hexValue c, hexValue d) of
        (Some w, Some x, Some y, Some z) \<Rightarrow> Some (((w * 16 + x) * 16 + y) * 16 + z)
      | _ \<Rightarrow> None)"

text \<open>The character an escape letter denotes.\<close>

definition escapeChar :: "char \<Rightarrow> char option" where
  "escapeChar e =
     (if e = CHR 0x22 then Some (CHR 0x22)
      else if e = CHR 0x5C then Some (CHR 0x5C)
      else if e = CHR ''/'' then Some (CHR ''/'')
      else if e = CHR ''b'' then Some (CHR 0x08)
      else if e = CHR ''f'' then Some (CHR 0x0C)
      else if e = CHR ''n'' then Some (CHR 0x0A)
      else if e = CHR ''r'' then Some (CHR 0x0D)
      else if e = CHR ''t'' then Some (CHR 0x09)
      else None)"

text \<open>
  A string after its opening quote: the decoded text (accumulated in reverse) and the rest
  of the input after the closing quote.
\<close>

fun parseString :: "string \<Rightarrow> string \<Rightarrow> (string \<times> string) option" where
  "parseString acc [] = None"
| "parseString acc [c] = (if c = CHR 0x22 then Some (rev acc, []) else None)"
| "parseString acc (c # e # cs) =
     (if c = CHR 0x22 then Some (rev acc, e # cs)
      else if c = CHR 0x5C then
        (if e = CHR ''u'' then
           (case cs of
              h1 # h2 # h3 # h4 # cs' \<Rightarrow>
                (case hex4 h1 h2 h3 h4 of
                   Some n \<Rightarrow> if n < 256 then parseString (char_of n # acc) cs' else None
                 | None \<Rightarrow> None)
            | _ \<Rightarrow> None)
         else (case escapeChar e of
                 Some d \<Rightarrow> parseString (d # acc) cs
               | None \<Rightarrow> None))
      else if codeUnit c < 32 then None
      else parseString (c # acc) (e # cs))"

text \<open>A number: the literal and the rest of the input.\<close>

definition parseNumber :: "string \<Rightarrow> (string \<times> string) option" where
  "parseNumber cs =
     (let (sign, r0) = (if startsWith ''-'' cs then (''-'', drop 1 cs) else ([], cs));
          whole = (if startsWith ''0'' r0 then ''0'' else takeWhile isDigit r0);
          r1 = drop (length whole) r0;
          frac = (if startsWith ''.'' r1 then CHR ''.'' # takeWhile isDigit (drop 1 r1) else []);
          r2 = drop (length frac) r1;
          expo = (if startsWith ''e'' r2 \<or> startsWith ''E'' r2 then
                    (let r3 = drop 1 r2;
                         sg = (if startsWith ''+'' r3 \<or> startsWith ''-'' r3 then take 1 r3 else [])
                     in take 1 r2 @ sg @ takeWhile isDigit (drop (length sg) r3))
                  else []);
          r4 = drop (length expo) r2
      in if whole = [] \<or> length frac = 1 \<or> (expo \<noteq> [] \<and> \<not> isDigit (last expo)) then None
         else Some (sign @ whole @ frac @ expo, r4))"

text \<open>
  Values, array elements and object members.  The first argument bounds the depth of the
  calls; \<open>JSON_parse\<close> starts with more than any text of that length needs, as each call
  is preceded by at least one code unit consumed or is the first of at most two in a row.
\<close>

fun parseValue :: "nat \<Rightarrow> string \<Rightarrow> (json \<times> string) option"
  and parseElements :: "nat \<Rightarrow> json list \<Rightarrow> string \<Rightarrow> (json \<times> string) option"
  and parseMembers :: "nat \<Rightarrow> (string \<times> json) list \<Rightarrow> string \<Rightarrow> (json \<times> string) option"
where
  "parseValue 0 cs = None"
| "parseValue (Suc n) cs =
     (case dropWhile jsonSpace cs of
        [] \<Rightarrow> None
      | c # r \<Rightarrow>
          if c = CHR ''{'' then
            (if startsWith ''}'' (dropWhile jsonSpace r)
             then Some (JObject [], drop 1 (dropWhile jsonSpace r))
             else parseMembers n [] r)
          else if c = CHR ''['' then
            (if startsWith '']'' (dropWhile jsonSpace r)
             then Some (JArray [], drop 1 (dropWhile jsonSpace r))
             else parseElements n [] r)
          else if c = CHR 0x22 then
            (case parseString [] r of
               Some (s, r') \<Rightarrow> Some (JString s, r')
             | None \<Rightarrow> None)
          else if c = CHR ''-'' \<or> isDigit c then
            (case parseNumber (c # r) of
               Some (lit, r') \<Rightarrow> Some (JNumber lit, r')
             | None \<Rightarrow> None)
          else if startsWith ''true'' (c # r) then Some (JBool True, drop 4 (c # r))
          else if startsWith ''false'' (c # r) then Some (JBool False, drop 5 (c # r))
          else if startsWith ''null'' (c # r) then Some (JNull, drop 4 (c # r))
          else None)"
| "parseElements 0 acc cs = None"
| "parseElements (Suc n) acc cs =
     (case parseValue n cs of
        None \<Rightarrow> None
      | Some (v, r) \<Rightarrow>
          (case dropWhile jsonSpace r of
             [] \<Rightarrow> None
           | d # r' \<Rightarrow>
               if d = CHR '','' then parseElements n (acc @ [v]) r'
               else if d = CHR '']'' then Some (JArray (acc @ [v]), r')
               else None))"
| "parseMembers 0 acc cs = None"
| "parseMembers (Suc n) acc cs =
     (case dropWhile jsonSpace cs of
        [] \<Rightarrow> None
      | q # r \<Rightarrow>
          if q \<noteq> CHR 0x22 then None
          else
            (case parseString [] r of
               None \<Rightarrow> None
             | Some (k, r1) \<Rightarrow>
                 (case dropWhile jsonSpace r1 of
                    [] \<Rightarrow> None
                  | colon # r2 \<Rightarrow>
                      if colon \<noteq> CHR '':'' then None
                      else
                        (case parseValue n r2 of
                           None \<Rightarrow> None
                         | Some (v, r3) \<Rightarrow>
                             (case dropWhile jsonSpace r3 of
                                [] \<Rightarrow> None
                              | d # r4 \<Rightarrow>
                                  if d = CHR '','' then parseMembers n (setProperty acc k v) r4
                                  else if d = CHR ''}'' then Some (JObject (setProperty acc k v), r4)
                                  else None)))))"

definition JSON_parse :: "string \<Rightarrow> json option" where
  "JSON_parse text =
     (case parseValue (2 * length text + 2) text of
        Some (v, r) \<Rightarrow> if dropWhile jsonSpace r = [] then Some v else None
      | None \<Rightarrow> None)"

subsection \<open>\<open>parseActionResponse\<close>, \<open>planNextAction\<close>, \<open>generateFinalAnswer\<close>\<close>

record action =
  name :: string
  params :: json

text \<open>The plan the planner returns; \<open>action\<close> is \<open>null\<close> (\<open>None\<close>) when no name was read.\<close>

record decision =
  thought :: string
  action :: "action option"
  shouldFinish :: bool

text \<open>
  One line of the fallback for parameters that are not JSON.  The destructuring takes the
  first two parts of the split; a write to the key \<open>__proto__\<close> with a string value is
  ignored by the runtime.
\<close>

definition paramLine :: "string \<Rightarrow> (string \<times> json) list \<Rightarrow> (string \<times> json) list" where
  "paramLine line actionParams =
     (if str_includes line '':'' then
        (case map trim (str_split (CHR '':'') line) of
           key # v # _ \<Rightarrow>
             if key \<noteq> [] \<and> v \<noteq> [] \<and> key \<noteq> ''__proto__''
             then setProperty actionParams key (JString v) else actionParams
         | _ \<Rightarrow> actionParams)
      else actionParams)"

text \<open>The parameters read from the group of the \<open>Action Parameters:\<close> match.\<close>

definition parseParams :: "string \<Rightarrow> json" where
  "parseParams grp =
     (case JSON_parse (trim (removeFences 0 (trim grp))) of
        Some v \<Rightarrow> v
      | None \<Rightarrow> JObject (fold paramLine (str_split (CHR 0x0A) grp) []))"

text \<open>
  \<open>parseActionResponse\<close>.  Its default branch evaluates \<open>state.query\<close>, and no \<open>state\<close> is in
  scope in this method (its only parameter is \<open>response\<close>, the module binds only \<open>logger\<close>):
  the branch raises a \<open>ReferenceError\<close>.
\<close>

definition parseActionResponse :: "string \<Rightarrow> error + decision" where
  "parseActionResponse response =
     (let thought_v = (case matchGroup ''Thought:'' [''Action:'', ''Final Answer:''] response of
                         Some g \<Rightarrow> trim g | None \<Rightarrow> []);
          actionName = (case matchGroup ''Action:'' [''Action Parameters:''] response of
                          Some g \<Rightarrow> trim g | None \<Rightarrow> []);
          actionParams = (case matchGroup ''Action Parameters:'' [''Final Answer:''] response of
                            Some g \<Rightarrow> parseParams g | None \<Rightarrow> JObject []);
          shouldFinish_v = (case finalAnswerMatch response of
                              Some g \<Rightarrow> toLowerCase g = ''true'' | None \<Rightarrow> False)
      in if actionName = [] \<and> \<not> shouldFinish_v
         then Inl (ReferenceError ''state is not defined'')
         else Inr \<lparr>thought = thought_v,
                   action = (if actionName \<noteq> []
                             then Some \<lparr>name = actionName, params = actionParams\<rparr> else None),
                   shouldFinish = shouldFinish_v\<rparr>)"

text \<open>The plan of the \<open>catch\<close> in \<open>planNextAction\<close>.\<close>

definition fallbackPlan :: "error \<Rightarrow> state \<Rightarrow> decision" where
  "fallbackPlan e st =
     \<lparr>thought = ''Error planning next action: '' @ message e,
      action = Some \<lparr>name = ''search'', params = JObject [(''query'', JString (query st))]\<rparr>,
      shouldFinish = False\<rparr>"

text \<open>
  \<open>planNextAction\<close>: the prompt is built before the \<open>try\<close> (from strings and lists, which
  cannot raise); the call of the completion service and the parse are both inside the
  \<open>try\<close>, so an error of either gives the fallback plan.
\<close>

definition planNextAction :: "llm \<Rightarrow> state \<Rightarrow> tool_desc list \<Rightarrow> decision" where
  "planNextAction llmClient st tools =
     (case llmClient (PlanningPrompt st tools) (tokens_and_temperature 500 0.2) of
        Inl e \<Rightarrow> fallbackPlan e st
      | Inr response \<Rightarrow>
          (case parseActionResponse (reply_text response) of
             Inl e \<Rightarrow> fallbackPlan e st
           | Inr planResult \<Rightarrow> planResult))"

definition generateFinalAnswer :: "llm \<Rightarrow> state \<Rightarrow> string" where
  "generateFinalAnswer llmClient st =
     (case llmClient (AnswerPrompt st) (tokens_and_temperature 1000 0.3) of
        Inr response \<Rightarrow> reply_text response
      | Inl e \<Rightarrow> ''I apologize, but I encountered an error while generating a response to your query. Please try asking again or rephrasing your question.'')"

section \<open>ToolBox and Controller (server/core/tools/index.js, server/core/frameworks/mcp/controller.js)\<close>

text \<open>A tool: its description and its \<open>execute\<close> method, whose promise may be rejected.\<close>

record tool = tool_desc +
  execute :: "json \<Rightarrow> tool_context \<Rightarrow> error + action_result"

text \<open>
  \<open>this.tools\<close> is the object literal \<open>{}\<close>: the registered tools are its own properties, in
  insertion order, and it inherits the members of \<open>Object.prototype\<close>.  (A tool is not
  named \<open>__proto__\<close>; that write would replace the prototype.)
\<close>

type_synonym toolbox = "(string \<times> tool) list"

definition registerTool :: "toolbox \<Rightarrow> tool \<Rightarrow> toolbox" where
  "registerTool tools t = setProperty tools (tool_name t) t"

definition objectPrototypeKeys :: "string list" where
  "objectPrototypeKeys =
     [''constructor'', ''__defineGetter__'', ''__defineSetter__'', ''hasOwnProperty'',
      ''__lookupGetter__'', ''__lookupSetter__'', ''isPrototypeOf'', ''propertyIsEnumerable'',
      ''toString'', ''valueOf'', ''__proto__'', ''toLocaleString'']"

text \<open>
  What \<open>this.tools[name]\<close> evaluates to: \<open>undefined\<close>, a registered tool, or an inherited
  member of \<open>Object.prototype\<close> (a function, or the prototype itself for \<open>__proto__\<close>), which
  is truthy and has no \<open>execute\<close>.
\<close>

datatype lookup = Undefined | Registered tool | Inherited

definition getTool :: "toolbox \<Rightarrow> string \<Rightarrow> lookup" where
  "getTool tools nm =
     (case map_of tools nm of
        Some t \<Rightarrow> Registered t
      | None \<Rightarrow> if nm \<in> set objectPrototypeKeys then Inherited else Undefined)"

definition listTools :: "toolbox \<Rightarrow> tool_desc list" where
  "listTools tools =
     map (\<lambda>(k, t). \<lparr>tool_name = tool_name t, description = description t,
                     parameters = parameters t\<rparr>) tools"

text \<open>The result the \<open>catch\<close> of \<open>executeAction\<close> builds.\<close>

definition executionError :: "string \<Rightarrow> error \<Rightarrow> action_result" where
  "executionError nm e =
     \<lparr>observation = ''Error executing '' @ nm @ '': '' @ message e,
      result_sources = None,
      result_error = Some (message e)\<rparr>"

text \<open>
  \<open>executeAction\<close>.  The destructuring of \<open>action\<close> is before the \<open>try\<close> and raises on
  \<open>null\<close>; the lookup, the call and its \<open>await\<close> are inside.  Calling \<open>tool.execute\<close> on an
  inherited member raises the runtime's \<open>TypeError\<close>, which the \<open>catch\<close> receives.
\<close>

definition executeAction :: "toolbox \<Rightarrow> action option \<Rightarrow> state \<Rightarrow> error + action_result" where
  "executeAction tools act st =
     (case act of
        None \<Rightarrow> Inl (TypeError ''Cannot destructure property 'name' of 'action' as it is null.'')
      | Some a \<Rightarrow>
          (case getTool tools (name a) of
             Undefined \<Rightarrow>
               Inr \<lparr>observation = ''Error: Tool '' @ [CHR 0x27] @ name a @ [CHR 0x27] @ '' not found'',
                    result_sources = None,
                    result_error = Some ''TOOL_NOT_FOUND''\<rparr>
           | Registered t \<Rightarrow>
               (case execute t (params a) \<lparr>c_query = query st, c_context = ctxt st\<rparr> of
                  Inr result \<Rightarrow> Inr result
                | Inl e \<Rightarrow> Inr (executionError (name a) e))
           | Inherited \<Rightarrow>
               Inr (executionError (name a) (TypeError ''tool.execute is not a function''))))"

section \<open>ReActFramework (server/core/frameworks/react/index.js)\<close>

text \<open>
  The framework receives its planner and its controller through the constructor; here
  they are the three methods the loop calls, each of which may raise, and the tool
  descriptions \<open>this.controller.toolbox.listTools()\<close>.  The model is the \<open>Model\<close> above.
\<close>

record framework =
  planner_planNextAction :: "state \<Rightarrow> tool_desc list \<Rightarrow> error + decision"
  planner_generateFinalAnswer :: "state \<Rightarrow> error + string"
  controller_executeAction :: "action option \<Rightarrow> state \<Rightarrow> error + action_result"
  controller_listTools :: "tool_desc list"
  maxIterations :: nat
  debug :: bool

text \<open>The constructor's \<open>config\<close>; \<open>None\<close> is an absent key.\<close>

record react_config =
  cfg_maxIterations :: "nat option"
  cfg_debug :: "bool option"

text \<open>
  The constructor: \<open>config.maxIterations || 5\<close> (zero is falsy) and \<open>config.debug || false\<close>.
\<close>

definition ReActFramework ::
  "(state \<Rightarrow> tool_desc list \<Rightarrow> error + decision) \<Rightarrow> (state \<Rightarrow> error + string) \<Rightarrow>
   (action option \<Rightarrow> state \<Rightarrow> error + action_result) \<Rightarrow> tool_desc list \<Rightarrow>
   react_config \<Rightarrow> framework" where
  "ReActFramework plan final exec tools config =
     \<lparr>planner_planNextAction = plan,
      planner_generateFinalAnswer = final,
      controller_executeAction = exec,
      controller_listTools = tools,
      maxIterations = (case cfg_maxIterations config of
                         Some n \<Rightarrow> if n \<noteq> 0 then n else 5
                       | None \<Rightarrow> 5),
      debug = (case cfg_debug config of Some b \<Rightarrow> b | None \<Rightarrow> False)\<rparr>"

text \<open>\<open>state.finalAnswer\<close> as a condition: \<open>null\<close> and the empty string are falsy.\<close>

definition answered :: "state \<Rightarrow> bool" where
  "answered st = (case finalAnswer st of None \<Rightarrow> False | Some a \<Rightarrow> a \<noteq> [])"

text \<open>
  Bookkeeping that the source does not have: how many times the loop body was entered and
  how many calls of the planner (\<open>planNextAction\<close>, \<open>generateFinalAnswer\<close>) were made.
\<close>

record counts =
  rounds :: nat
  plannerCalls :: nat

definition called :: "nat \<Rightarrow> counts \<Rightarrow> counts" where
  "called k c = c\<lparr>plannerCalls := plannerCalls c + k\<rparr>"

text \<open>How one pass through the loop body ends.\<close>

datatype step = Continue state | Break state | Throw error

text \<open>
  The loop body, from the state at the loop head.  \<open>st1\<close> is the object \<open>updateState\<close>
  creates, to which the local variable \<open>state\<close> refers for the whole pass; the pushes of
  \<open>addReasoning\<close> and \<open>addObservation\<close> go to the conversation array that this object
  shares with \<open>this.model.state\<close>, so \<open>state\<close> sees them (\<open>st2\<close>, \<open>st3\<close>).  The merge of the
  sources creates a new object \<open>st4\<close> for \<open>this.model.state\<close> while \<open>state\<close> still refers to
  the previous one: the forced completion tests and passes \<open>st3\<close>, and sets the answer in
  \<open>st4\<close>.  The argument \<open>planResult.action.name\<close> of \<open>addObservation\<close> raises when the action
  is \<open>null\<close>.
\<close>

definition loopBody :: "framework \<Rightarrow> tool_desc list \<Rightarrow> state \<Rightarrow> step \<times> nat" where
  "loopBody fw tools st =
     (let st1 = updateState st (no_updates\<lparr>u_iterations := Some (iterations st + 1)\<rparr>)
      in case planner_planNextAction fw st1 tools of
           Inl e \<Rightarrow> (Throw e, 1)
         | Inr planResult \<Rightarrow>
             (let st2 = addReasoning st1 (thought planResult)
              in if shouldFinish planResult then
                   (case planner_generateFinalAnswer fw st2 of
                      Inl e \<Rightarrow> (Throw e, 2)
                    | Inr final \<Rightarrow> (Break (setFinalAnswer st2 final), 2))
                 else
                   (case controller_executeAction fw (action planResult) st2 of
                      Inl e \<Rightarrow> (Throw e, 1)
                    | Inr actionResult \<Rightarrow>
                        (case action planResult of
                           None \<Rightarrow>
                             (Throw (TypeError ''Cannot read properties of null (reading 'name')''), 1)
                         | Some a \<Rightarrow>
                             (let st3 = addObservation st2 (observation actionResult) (name a);
                                  st4 = (case result_sources actionResult of
                                           Some s \<Rightarrow> updateState st3 (no_updates\<lparr>u_sources := Some s\<rparr>)
                                         | None \<Rightarrow> st3)
                              in if iterations st3 \<ge> maxIterations fw \<and> \<not> answered st3 then
                                   (case planner_generateFinalAnswer fw st3 of
                                      Inl e \<Rightarrow> (Throw e, 2)
                                    | Inr final \<Rightarrow> (Continue (setFinalAnswer st4 final), 2))
                                 else (Continue st4, 1))))))"

text \<open>The \<open>while\<close> loop, from the state at its head.\<close>

function whileLoop ::
  "framework \<Rightarrow> tool_desc list \<Rightarrow> state \<Rightarrow> counts \<Rightarrow> (error + state) \<times> counts" where
  "whileLoop fw tools st c =
     (if iterations st < maxIterations fw \<and> \<not> answered st then
        (case loopBody fw tools st of
           (Continue st', k) \<Rightarrow> whileLoop fw tools st' (called k (c\<lparr>rounds := rounds c + 1\<rparr>))
         | (Break st', k) \<Rightarrow> (Inr st', called k (c\<lparr>rounds := rounds c + 1\<rparr>))
         | (Throw e, k) \<Rightarrow> (Inl e, called k (c\<lparr>rounds := rounds c + 1\<rparr>)))
      else (Inr st, c))"
  by pat_completeness auto
termination
  apply (relation "measure (\<lambda>(fw, tools, st, c). maxIterations fw - iterations st)")
   apply simp
  apply (auto simp: loopBody_def Let_def updateState_def spread_def no_updates_def
          addReasoning_def addObservation_def setFinalAnswer_def
          split: sum.splits if_splits option.splits)
  done

declare whileLoop.simps [simp del]

definition executeReActLoop :: "framework \<Rightarrow> state \<Rightarrow> (error + state) \<times> counts" where
  "executeReActLoop fw st =
     whileLoop fw (controller_listTools fw) st \<lparr>rounds = 0, plannerCalls = 0\<rparr>"

text \<open>
  What \<open>process\<close> resolves to; \<open>response_sources\<close> and \<open>response_error\<close> are the keys
  \<open>sources\<close> and \<open>error\<close>, \<open>debugInfo\<close> the iteration count and the conversation.
\<close>

record response =
  answer :: string
  response_sources :: "source_item list"
  response_error :: "string option"
  debugInfo :: "(nat \<times> message_entry list) option"

definition formatResponse :: "framework \<Rightarrow> state \<Rightarrow> response" where
  "formatResponse fw st =
     (let uniqueSources = uniqueByUrl (sources st)
      in \<lparr>answer = (if answered st then the (finalAnswer st)
                    else ''I was unable to generate a complete answer. Please try rephrasing your question.''),
          response_sources = take 5 uniqueSources,
          response_error = None,
          debugInfo = (if debug fw then Some (iterations st, conversation st) else None)\<rparr>)"

text \<open>
  \<open>process\<close>: the state is initialised before the \<open>try\<close>; the loop and the formatting are
  inside it, and the \<open>catch\<close> builds the response of an error (\<open>errorResponse\<close>).
\<close>

definition errorResponse :: "error \<Rightarrow> response" where
  "errorResponse e =
     \<lparr>answer = ''I encountered an error while processing your query: '' @ message e @
               ''. Please try again or rephrase your question.'',
      response_sources = [],
      response_error = Some (message e),
      debugInfo = None\<rparr>"

definition process :: "framework \<Rightarrow> string \<Rightarrow> (string \<times> json) list \<Rightarrow> response" where
  "process fw q c =
     (case fst (executeReActLoop fw (initializeState q c)) of
        Inr st \<Rightarrow> formatResponse fw st
      | Inl e \<Rightarrow> errorResponse e)"

section \<open>GeneralAgent (server/core/agents/general/index.js)\<close>

text \<open>
  \<open>this.react\<close> of the agent: the framework over the \<open>Planner\<close> of a completion service and
  the \<open>Controller\<close> of a toolbox.  Neither \<open>planNextAction\<close> nor \<open>generateFinalAnswer\<close> of
  this planner raises.  The agent's own \<open>process\<close> builds the context from its options and
  hands the query and the context to \<open>process\<close> of this framework.
\<close>

definition agentFramework :: "llm \<Rightarrow> toolbox \<Rightarrow> react_config \<Rightarrow> framework" where
  "agentFramework llmClient tools config =
     ReActFramework
       (\<lambda>st ds. Inr (planNextAction llmClient st ds))
       (\<lambda>st. Inr (generateFinalAnswer llmClient st))
       (executeAction tools)
       (listTools tools)
       config"

section \<open>Calls of \<open>process\<close> on the one agent (server/api/controllers/agent.controller.js)\<close>

text \<open>
  The controller module creates one \<open>GeneralAgent\<close> when it is loaded; the constructor of
  the agent creates one \<open>Model\<close> and one \<open>ReActFramework\<close> over it, and every request calls
  \<open>process\<close> on them.  To follow several calls, the objects get identities.  A state
  object is its fields and a reference to its conversation array (the object spread of
  \<open>updateState\<close> copies the reference, not the array); the store holds the objects and the
  arrays ever created, and \<open>this_state\<close>, the object that \<open>this.model.state\<close> refers to.
  References are indices; they are only made by allocation, so they are in range.  The
  field \<open>conversation\<close> inside \<open>object_fields\<close> is not read: \<open>view\<close> takes the array.
\<close>

record state_object =
  object_fields :: state
  conversation_ref :: nat

record store =
  objects :: "state_object list"
  arrays :: "message_entry list list"
  this_state :: nat

definition view :: "store \<Rightarrow> nat \<Rightarrow> state" where
  "view h a =
     (object_fields (objects h ! a))\<lparr>conversation := arrays h ! conversation_ref (objects h ! a)\<rparr>"

text \<open>The store after the constructor of \<open>Model\<close>; no query has been set.\<close>

definition new_Model :: store where
  "new_Model =
     \<lparr>objects = [\<lparr>object_fields = \<lparr>query = [], conversation = [], ctxt = [], sources = [],
                              iterations = 0, finalAnswer = None\<rparr>,
                   conversation_ref = 0\<rparr>],
      arrays = [[]],
      this_state = 0\<rparr>"

text \<open>\<open>initializeState\<close>: a new object with a new conversation array becomes \<open>this.state\<close>.\<close>

definition store_initializeState :: "string \<Rightarrow> (string \<times> json) list \<Rightarrow> store \<Rightarrow> store" where
  "store_initializeState q c h =
     \<lparr>objects = objects h @ [\<lparr>object_fields = initializeState q c, conversation_ref = length (arrays h)\<rparr>],
      arrays = arrays h @ [conversation (initializeState q c)],
      this_state = length (objects h)\<rparr>"

text \<open>
  \<open>updateState\<close> with an update that carries no conversation, as the loop calls it: a new
  object, which shares the conversation array of the previous one, becomes \<open>this.state\<close>.
\<close>

definition store_updateState :: "updates \<Rightarrow> store \<Rightarrow> store" where
  "store_updateState u h =
     \<lparr>objects = objects h @
                 [\<lparr>object_fields = updateState (view h (this_state h)) u,
                   conversation_ref = conversation_ref (objects h ! this_state h)\<rparr>],
      arrays = arrays h,
      this_state = length (objects h)\<rparr>"

text \<open>
  \<open>addReasoning\<close>, \<open>addObservation\<close> and \<open>setFinalAnswer\<close> change the object \<open>this.state\<close>
  in place: they push to its conversation array and assign to its fields.
\<close>

definition store_mutate :: "(state \<Rightarrow> state) \<Rightarrow> store \<Rightarrow> store" where
  "store_mutate f h =
     (let a = this_state h;
          new = f (view h a)
      in h\<lparr>objects := (objects h)[a := (objects h ! a)\<lparr>object_fields := new\<rparr>],
           arrays := (arrays h)[conversation_ref (objects h ! a) := conversation new]\<rparr>)"

text \<open>
  One call of \<open>process\<close>, between two of its suspensions.  It is suspended at an \<open>await\<close>
  of the loop, holding the object its local variable \<open>state\<close> refers to and the outcome
  the awaited call will have (the call has read its arguments when it was made), or it has
  not started, or it has returned.
\<close>

datatype session =
    Called string "(string \<times> json) list"
  | AwaitingPlan nat "error + decision"
  | AwaitingAnswer nat "error + string"
  | AwaitingAction nat decision "error + action_result"
  | AwaitingForcedAnswer nat "error + string"
  | Returned response

text \<open>
  From the test of the \<open>while\<close>, which reads the local \<open>state\<close>, to the call of the planner;
  or, when the test fails, out of the loop to \<open>this.model.getState()\<close> and \<open>formatResponse\<close>.
\<close>

definition loopHead :: "framework \<Rightarrow> nat \<Rightarrow> store \<Rightarrow> session \<times> store" where
  "loopHead fw a h =
     (if iterations (view h a) < maxIterations fw \<and> \<not> answered (view h a) then
        (let h1 = store_updateState (no_updates\<lparr>u_iterations := Some (iterations (view h a) + 1)\<rparr>) h
         in (AwaitingPlan (this_state h1)
               (planner_planNextAction fw (view h1 (this_state h1)) (controller_listTools fw)),
             h1))
      else (Returned (formatResponse fw (view h (this_state h))), h))"

text \<open>
  The code a call runs when it is started or resumed, up to its next suspension or its
  return.  An error of an awaited call is thrown into the \<open>catch\<close> of \<open>process\<close>.
\<close>

fun resume :: "framework \<Rightarrow> session \<Rightarrow> store \<Rightarrow> session \<times> store" where
  "resume fw (Called q c) h =
     (let h1 = store_initializeState q c h in loopHead fw (this_state h1) h1)"
| "resume fw (AwaitingPlan a (Inl e)) h = (Returned (errorResponse e), h)"
| "resume fw (AwaitingPlan a (Inr planResult)) h =
     (let h1 = store_mutate (\<lambda>s. addReasoning s (thought planResult)) h
      in if shouldFinish planResult
         then (AwaitingAnswer a (planner_generateFinalAnswer fw (view h1 a)), h1)
         else (AwaitingAction a planResult
                 (controller_executeAction fw (action planResult) (view h1 a)), h1))"
| "resume fw (AwaitingAnswer a (Inl e)) h = (Returned (errorResponse e), h)"
| "resume fw (AwaitingAnswer a (Inr final)) h =
     (let h1 = store_mutate (\<lambda>s. setFinalAnswer s final) h
      in (Returned (formatResponse fw (view h1 (this_state h1))), h1))"
| "resume fw (AwaitingAction a planResult (Inl e)) h = (Returned (errorResponse e), h)"
| "resume fw (AwaitingAction a planResult (Inr actionResult)) h =
     (case action planResult of
        None \<Rightarrow>
          (Returned (errorResponse (TypeError ''Cannot read properties of null (reading 'name')'')), h)
      | Some act \<Rightarrow>
          (let h1 = store_mutate (\<lambda>s. addObservation s (observation actionResult) (name act)) h;
               h2 = (case result_sources actionResult of
                       Some srcs \<Rightarrow> store_updateState (no_updates\<lparr>u_sources := Some srcs\<rparr>) h1
                     | None \<Rightarrow> h1)
           in if iterations (view h2 a) \<ge> maxIterations fw \<and> \<not> answered (view h2 a)
              then (AwaitingForcedAnswer a (planner_generateFinalAnswer fw (view h2 a)), h2)
              else loopHead fw (this_state h2) h2))"
| "resume fw (AwaitingForcedAnswer a (Inl e)) h = (Returned (errorResponse e), h)"
| "resume fw (AwaitingForcedAnswer a (Inr final)) h =
     (let h1 = store_mutate (\<lambda>s. setFinalAnswer s final) h
      in loopHead fw (this_state h1) h1)"
| "resume fw (Returned r) h = (Returned r, h)"

text \<open>A call that nothing interrupts: \<open>n\<close> times started or resumed.\<close>

fun steps :: "framework \<Rightarrow> nat \<Rightarrow> session \<times> store \<Rightarrow> session \<times> store" where
  "steps fw 0 cfg = cfg"
| "steps fw (Suc n) cfg = steps fw n (resume fw (fst cfg) (snd cfg))"

text \<open>
  Several calls on the one store: the schedule names, one after the other, the call that
  runs next.
\<close>

fun interleave :: "framework \<Rightarrow> nat list \<Rightarrow> session list \<Rightarrow> store \<Rightarrow> session list \<times> store" where
  "interleave fw [] ss h = (ss, h)"
| "interleave fw (i # sched) ss h =
     (if i < length ss
      then (case resume fw (ss ! i) h of (s', h') \<Rightarrow> interleave fw sched (ss[i := s']) h')
      else interleave fw sched ss h)"

text \<open>The answer of a call that has returned.\<close>

fun returned_answer :: "session \<Rightarrow> string option" where
  "returned_answer (Returned r) = Some (answer r)"
| "returned_answer s = None"

section \<open>Reference functions for the proofs\<close>

text \<open>
  The filter of \<open>uniqueByUrl\<close> as a recursion: an entry is kept when its URL has not been
  seen in the entries before it.
\<close>

fun keepFirst :: "string set \<Rightarrow> ('a source_item_scheme) list \<Rightarrow> ('a source_item_scheme) list" where
  "keepFirst seen [] = []"
| "keepFirst seen (x # xs) =
     (if url x \<in> seen then keepFirst seen xs else x # keepFirst (insert (url x) seen) xs)"

text \<open>
  \<open>holds h a st\<close>: in the store \<open>h\<close> the object \<open>a\<close> is \<open>this.state\<close>, its references are
  in range, and it reads as the state \<open>st\<close>.
\<close>

definition holds :: "store \<Rightarrow> nat \<Rightarrow> state \<Rightarrow> bool" where
  "holds h a st =
     (a = this_state h \<and> a < length (objects h) \<and>
      conversation_ref (objects h ! a) < length (arrays h) \<and> view h a = st)"

text \<open>The response \<open>process\<close> builds from the outcome of the loop.\<close>

definition respond :: "framework \<Rightarrow> error + state \<Rightarrow> response" where
  "respond fw outcome = (case outcome of Inr st \<Rightarrow> formatResponse fw st | Inl e \<Rightarrow> errorResponse e)"

section \<open>Concrete inputs\<close>

text \<open>Two source entries with the same URL and different content, and a third entry.\<close>

definition first_seen :: source_item where
  "first_seen = \<lparr>title = ''Audio guide'', url = ''https://support.zoom.com/audio'',
     source = ''Zoom Support'', snippet = ''from the first search''\<rparr>"

definition seen_again :: source_item where
  "seen_again = \<lparr>title = ''Audio guide (updated)'', url = ''https://support.zoom.com/audio'',
     source = ''Google Search'', snippet = ''from the second search''\<rparr>"

definition another :: source_item where
  "another = \<lparr>title = ''Video guide'', url = ''https://support.zoom.com/video'',
     source = ''Zoom Support'', snippet = ''from the first search''\<rparr>"

text \<open>Four results with the scores 0.5, 0.9, 0.9 and 0.3, in arrival order.\<close>

definition scored :: "string \<Rightarrow> real \<Rightarrow> search_result" where
  "scored t s = \<lparr>title = t, url = ''https://example.com/'' @ t, source = ''Zoom Community'',
     snippet = [], relevance = s\<rparr>"

definition arrival :: "search_result list" where
  "arrival = [scored ''a'' 0.5, scored ''b'' 0.9, scored ''c'' 0.9, scored ''d'' 0.3]"

text \<open>
  A fan-out over three sources in which the second fails and the other two return the
  same page; a completion service that is down.
\<close>

definition same_page :: search_result where
  "same_page = \<lparr>title = ''Audio guide'', url = ''https://support.zoom.com/audio'',
     source = ''Zoom Support'', snippet = ''check the microphone'', relevance = 0.9\<rparr>"

definition fetch_ABC :: "string \<Rightarrow> string \<Rightarrow> error + search_result list" where
  "fetch_ABC src q =
     (if src = ''B'' then Inl (Error ''connect ECONNREFUSED'') else Inr [same_page])"

definition service_down :: llm where
  "service_down p opts = Inl (Error ''Failed to get completion from Claude: overloaded'')"

definition params_ABC :: search_params where
  "params_ABC = \<lparr>p_query = Some ''audio issue'', p_sources = Some [''A'', ''B'', ''C'']\<rparr>"

definition context_audio :: tool_context where
  "context_audio = \<lparr>c_query = ''My audio is not working'', c_context = []\<rparr>"

text \<open>The client as the configuration file sets it up without environment overrides.\<close>

definition configured_client :: client where
  "configured_client = \<lparr>defaultModel = VStr ''claude-3-opus-20240229'',
     defaultMaxTokens = VNum 4000, defaultTemperature = VNum 0.3\<rparr>"

text \<open>
  The reply of the planner-parse example: four labelled segments on four lines.  A second
  reply with a thought only, and a completion service that always gives it.
\<close>

definition example_reply :: string where
  \<open>example_reply =
     ''Thought: X'' @ [CHR 0x0A] @
     ''Action: search'' @ [CHR 0x0A] @
     ''Action Parameters: {"query":"audio issue"}'' @ [CHR 0x0A] @
     ''Final Answer: false''\<close>

definition thought_only :: string where
  "thought_only = ''Thought: I should look for more information.''"

definition no_usage :: usage where
  "no_usage = \<lparr>promptTokens = 0, completionTokens = 0, totalTokens = 0\<rparr>"

definition undecided_service :: llm where
  "undecided_service p opts =
     (case p of
        PlanningPrompt st ds \<Rightarrow> Inr \<lparr>reply_text = thought_only, usage = no_usage\<rparr>
      | AnswerPrompt st \<Rightarrow> Inr \<lparr>reply_text = ''Please check the audio settings.'', usage = no_usage\<rparr>
      | SummaryPrompt rs q \<Rightarrow> Inr \<lparr>reply_text = ''Nothing relevant.'', usage = no_usage\<rparr>)"

text \<open>The search tool as the toolbox holds it, with a given \<open>execute\<close>; a toolbox with it alone.\<close>

definition webSearchTool :: "(json \<Rightarrow> tool_context \<Rightarrow> error + action_result) \<Rightarrow> tool" where
  "webSearchTool ex =
     \<lparr>tool_name = ''search'',
      description = ''Search for information from Zoom Community, Zoom Support, and Google'',
      parameters = [''query'', ''sources''],
      execute = ex\<rparr>"

definition nothing_found :: "json \<Rightarrow> tool_context \<Rightarrow> error + action_result" where
  "nothing_found ps c =
     Inr \<lparr>observation = ''Found 0 results across 3 sources.'', result_sources = Some [],
          result_error = None\<rparr>"

definition agent_toolbox :: toolbox where
  "agent_toolbox = registerTool [] (webSearchTool nothing_found)"

definition default_config :: react_config where
  "default_config = \<lparr>cfg_maxIterations = Some 5, cfg_debug = Some False\<rparr>"

text \<open>
  A framework built with a planner whose \<open>planNextAction\<close> is rejected, over the
  controller of the agent's toolbox.
\<close>

definition rejecting_framework :: framework where
  "rejecting_framework =
     ReActFramework
       (\<lambda>st ds. Inl (Error ''planner unavailable''))
       (\<lambda>st. Inr ''unused'')
       (executeAction agent_toolbox)
       (listTools agent_toolbox)
       default_config"

text \<open>
  Two users.  The completion service finishes at once for the first query and asks for
  more on any other; its answers name the query they were written for.
\<close>

definition screen_query :: string where
  "screen_query = ''How do I share my screen?''"

definition audio_query :: string where
  "audio_query = ''My audio is not working''"

definition finishing_reply :: string where
  "finishing_reply = ''Thought: I know this.'' @ [CHR 0x0A] @ ''Final Answer: true''"

definition two_users_service :: llm where
  "two_users_service p opts =
     (case p of
        PlanningPrompt st ds \<Rightarrow>
          Inr \<lparr>reply_text = (if query st = screen_query then finishing_reply else thought_only),
               usage = no_usage\<rparr>
      | AnswerPrompt st \<Rightarrow> Inr \<lparr>reply_text = ''Answer about: '' @ query st, usage = no_usage\<rparr>
      | SummaryPrompt rs q \<Rightarrow> Inr \<lparr>reply_text = ''Nothing relevant.'', usage = no_usage\<rparr>)"

definition two_users_framework :: framework where
  "two_users_framework = agentFramework two_users_service agent_toolbox default_config"

section \<open>Properties of the state store\<close>

lemma findIndex_ge: "findIndex P xs \<ge> - 1"
  by (induction xs) (auto simp: Let_def)

lemma findIndex_append_hit:
  "P x \<Longrightarrow> (findIndex P (pre @ x # xs) = int (length pre)) = (\<forall>y \<in> set pre. \<not> P y)"
proof (induction pre)
  case Nil
  then show ?case by simp
next
  case (Cons a pre)
  have "findIndex P (pre @ x # xs) \<ge> - 1" by (rule findIndex_ge)
  with Cons show ?case by (auto simp: Let_def)
qed

lemma uniqueByUrl_aux:
  "map snd (filter (\<lambda>(index, src). int index = findIndex (\<lambda>s. url s = url src) (pre @ xs))
                   (enumerate (length pre) xs)) = keepFirst (url ` set pre) xs"
proof (induction xs arbitrary: pre)
  case Nil
  then show ?case by simp
next
  case (Cons x xs)
  have hit: "(findIndex (\<lambda>s. url s = url x) (pre @ x # xs) = int (length pre)) =
             (\<forall>y \<in> set pre. url y \<noteq> url x)"
    by (rule findIndex_append_hit) simp
  have step: "map snd (filter (\<lambda>(index, src).
                  int index = findIndex (\<lambda>s. url s = url src) ((pre @ [x]) @ xs))
                (enumerate (length (pre @ [x])) xs)) = keepFirst (url ` set (pre @ [x])) xs"
    by (rule Cons.IH)
  have dup: "url x \<in> url ` set pre \<Longrightarrow>
             keepFirst (url ` set (pre @ [x])) xs = keepFirst (url ` set pre) xs"
    by (simp add: insert_absorb)
  show ?case
  proof (cases "url x \<in> url ` set pre")
    case True
    with hit have "findIndex (\<lambda>s. url s = url x) (pre @ x # xs) \<noteq> int (length pre)" by auto
    with True step dup show ?thesis by (simp add: eq_commute[of "int (length pre)"])
  next
    case False
    then have "\<forall>y \<in> set pre. url y \<noteq> url x" by (auto simp: image_iff)
    with hit have "findIndex (\<lambda>s. url s = url x) (pre @ x # xs) = int (length pre)" by simp
    with False step show ?thesis by simp
  qed
qed

lemma uniqueByUrl_keepFirst: "uniqueByUrl xs = keepFirst {} xs"
  using uniqueByUrl_aux[of "[]" xs] by (simp add: uniqueByUrl_def)

lemma keepFirst_urls:
  "distinct (map url (keepFirst seen xs)) \<and> url ` set (keepFirst seen xs) \<inter> seen = {}"
  by (induction xs arbitrary: seen) auto

lemma keepFirst_seen: "url ` set xs \<subseteq> seen \<Longrightarrow> keepFirst seen xs = []"
  by (induction xs arbitrary: seen) auto

lemma keepFirst_append:
  "keepFirst seen (xs @ ys) = keepFirst seen xs @ keepFirst (seen \<union> url ` set xs) ys"
  by (induction xs arbitrary: seen) (auto simp: insert_absorb)

text \<open>What the filter leaves has pairwise different URLs.\<close>

lemma uniqueByUrl_distinct: "distinct (map url (uniqueByUrl xs))"
  by (simp add: uniqueByUrl_keepFirst keepFirst_urls)

lemma uniqueByUrl_twice: "uniqueByUrl (new @ new) = uniqueByUrl new"
  by (simp add: uniqueByUrl_keepFirst keepFirst_append keepFirst_seen)

text \<open>
  An update that carries sources replaces the sources of the state by the filtered new
  ones: the result does not depend on the sources the state had.
\<close>

lemma updateState_sources:
  "u_sources u = Some new \<Longrightarrow> sources (updateState st u) = uniqueByUrl new"
  by (simp add: updateState_def spread_def uniqueByUrl_twice)

lemma updateState_sources_distinct:
  "distinct (map url (sources st)) \<Longrightarrow> distinct (map url (sources (updateState st u)))"
  by (cases "u_sources u") (simp_all add: updateState_def spread_def uniqueByUrl_distinct)

lemma updateState_iterations:
  "iterations (updateState st u) = (case u_iterations u of None \<Rightarrow> iterations st | Some v \<Rightarrow> v)"
  by (simp add: updateState_def spread_def split: option.splits)

text \<open>
  C3 (the evidence list never holds two entries of one URL; when a merge brings an entry whose
  URL is already present, the first-seen entry is retained and the order of the survivors is
  preserved; iterations never decreases).  The code breaks the second part.  After a first
  merge has stored \<open>first_seen\<close> and \<open>another\<close>, a second merge that brings \<open>seen_again\<close>,
  which has the URL of \<open>first_seen\<close>, leaves \<open>seen_again\<close> alone in the list: the first-seen
  entry is gone and its content replaced, and so is the entry with the other URL.
\<close>

theorem updateState_discards_first_seen:
  "url seen_again = url first_seen \<and>
   sources (updateState (initializeState ''audio'' [])
              (no_updates\<lparr>u_sources := Some [first_seen, another]\<rparr>)) = [first_seen, another] \<and>
   sources (updateState
              (updateState (initializeState ''audio'' [])
                 (no_updates\<lparr>u_sources := Some [first_seen, another]\<rparr>))
              (no_updates\<lparr>u_sources := Some [seen_again]\<rparr>)) = [seen_again]"
  by (simp add: updateState_def spread_def no_updates_def initializeState_def uniqueByUrl_def
        first_seen_def seen_again_def another_def)

section \<open>Properties of the completion client\<close>

text \<open>
  C10 (a falsy option value for \<open>model\<close>, \<open>maxTokens\<close> or \<open>temperature\<close>, the number 0 in
  particular, is replaced by the configured default).  \<open>complete_request\<close> is the request
  that \<open>complete\<close> hands to the SDK.
\<close>

theorem complete_falsy_option_gives_default:
  "(\<not> truthy (model opts) \<longrightarrow> req_model (complete_request c p opts) = defaultModel c) \<and>
   (\<not> truthy (maxTokens opts) \<longrightarrow> max_tokens (complete_request c p opts) = defaultMaxTokens c) \<and>
   (\<not> truthy (temperature opts) \<longrightarrow>
      req_temperature (complete_request c p opts) = defaultTemperature c)"
  by (simp add: complete_request_def js_or_def Let_def)

theorem complete_zero_options_witness:
  "\<not> truthy (model (tokens_and_temperature 0 0)) \<and>
   \<not> truthy (maxTokens (tokens_and_temperature 0 0)) \<and>
   \<not> truthy (temperature (tokens_and_temperature 0 0)) \<and>
   req_model (complete_request configured_client ''hello'' (tokens_and_temperature 0 0))
     = VStr ''claude-3-opus-20240229'' \<and>
   max_tokens (complete_request configured_client ''hello'' (tokens_and_temperature 0 0))
     = VNum 4000 \<and>
   req_temperature (complete_request configured_client ''hello'' (tokens_and_temperature 0 0))
     = VNum 0.3"
  using complete_falsy_option_gives_default
          [of "tokens_and_temperature 0 0" configured_client "''hello''"]
  by (simp add: tokens_and_temperature_def configured_client_def)

section \<open>Properties of the search tool\<close>

lemma sort_insert_insort_key:
  "sort_insert (\<lambda>a b. relevance b - relevance a) x ys = insort_key (\<lambda>r. - relevance r) x ys"
  by (induction ys) auto

text \<open>The ranking is the library's stable insertion sort on the negated score.\<close>

lemma rankResults_sort_key: "rankResults results q = sort_key (\<lambda>r. - relevance r) results"
  unfolding rankResults_def array_sort_def
  by (induction results) (simp_all add: sort_insert_insort_key)

lemma length_rankResults: "length (rankResults results q) = length results"
  by (simp add: rankResults_sort_key)

text \<open>
  C7 (\<open>rankResults\<close> sorts by score, descending, and is stable).  The output is
  descending in the score, is a permutation of the input, and for every score \<open>s\<close> the
  entries with that score come out in the order in which they came in.
\<close>

theorem rankResults_stable:
  "sorted_wrt (\<lambda>a b. relevance a \<ge> relevance b) (rankResults results q) \<and>
   mset (rankResults results q) = mset results \<and>
   filter (\<lambda>r. relevance r = s) (rankResults results q) = filter (\<lambda>r. relevance r = s) results"
proof -
  let ?f = "\<lambda>r::search_result. - relevance r"
  have "sorted (map ?f (sort_key ?f results))" by simp
  then have desc: "sorted_wrt (\<lambda>a b. relevance a \<ge> relevance b) (rankResults results q)"
    by (simp add: rankResults_sort_key sorted_map)
  have perm: "mset (rankResults results q) = mset results"
    by (simp add: rankResults_sort_key)
  have "filter (\<lambda>r. ?f r = - s) (sort_key ?f results) = filter (\<lambda>r. ?f r = - s) results"
    by (rule sort_key_stable)
  then have stable: "filter (\<lambda>r. relevance r = s) (rankResults results q) =
                     filter (\<lambda>r. relevance r = s) results"
    by (simp add: rankResults_sort_key)
  from desc perm stable show ?thesis by blast
qed

text \<open>The scores 0.5, 0.9, 0.9, 0.3: the two entries scored 0.9 keep their order \<open>b\<close>, \<open>c\<close>.\<close>

theorem rankResults_stable_witness:
  "rankResults arrival ''audio'' = [scored ''b'' 0.9, scored ''c'' 0.9, scored ''a'' 0.5, scored ''d'' 0.3] \<and>
   filter (\<lambda>r. relevance r = 0.9) (rankResults arrival ''audio'') = [scored ''b'' 0.9, scored ''c'' 0.9]"
proof -
  have "filter (\<lambda>r. relevance r = 0.9) (rankResults arrival ''audio'') =
        filter (\<lambda>r. relevance r = 0.9) arrival"
    using rankResults_stable [of arrival "''audio''" "0.9"] by blast
  moreover have "filter (\<lambda>r. relevance r = 0.9) arrival = [scored ''b'' 0.9, scored ''c'' 0.9]"
    by (simp add: arrival_def scored_def)
  moreover have "rankResults arrival ''audio'' =
        [scored ''b'' 0.9, scored ''c'' 0.9, scored ''a'' 0.5, scored ''d'' 0.3]"
    by (simp add: rankResults_def array_sort_def arrival_def scored_def)
  ultimately show ?thesis by simp
qed

text \<open>
  C2 as stated (with the second of three sources failing, the evidence list has
  \<open>min(5, size of the deduplicated union)\<close> entries) fails: when the two sources that answer
  return the same page, the tool returns it twice.
\<close>

theorem execute_keeps_duplicates:
  "WebSearchTool_execute fetch_ABC service_down params_ABC context_audio =
     Inr \<lparr>observation =
            ''Found 2 results across 3 sources. Top results:'' @ [CHR 0x0A] @
            ''1. Audio guide (Zoom Support)'' @ [CHR 0x0A] @
            ''2. Audio guide (Zoom Support)'' @ [CHR 0x0A, CHR 0x0A] @
            ''Summary: Unable to generate summary due to an error.'',
          result_sources = Some [as_source_item same_page, as_source_item same_page],
          result_error = None\<rparr> \<and>
   length (uniqueByUrl ([same_page] @ [same_page])) = 1 \<and>
   length [as_source_item same_page, as_source_item same_page]
     \<noteq> min 5 (length (uniqueByUrl ([same_page] @ [same_page])))"
  by (simp add: WebSearchTool_execute_def effectiveQuery_def effectiveSources_def fetch_ABC_def
        service_down_def params_ABC_def context_audio_def rankResults_def array_sort_def
        summarizeResults_def uniqueByUrl_def same_page_def Let_def show_nat.simps)

text \<open>
  C2, amended: with the sources \<open>A\<close>, \<open>B\<close>, \<open>C\<close>, of which \<open>B\<close> fails and \<open>A\<close> and \<open>C\<close>
  answer, the call succeeds without an error field, its evidence is the first five of the
  ranked concatenation of the results of \<open>A\<close> and \<open>C\<close>, and the length of the evidence is
  \<open>min(5, number of results of A and C together)\<close>, duplicates counted.
\<close>

theorem execute_isolates_failed_source:
  assumes "p_sources given = Some [A, B, C]"
    and "searchSource A (effectiveQuery given cx) = Inr ra"
    and "searchSource B (effectiveQuery given cx) = Inl e"
    and "searchSource C (effectiveQuery given cx) = Inr rc"
  shows "\<exists>obs. WebSearchTool_execute searchSource claudeClient given cx =
               Inr \<lparr>observation = obs,
                    result_sources = Some (map as_source_item
                       (take 5 (rankResults (ra @ rc) (effectiveQuery given cx)))),
                    result_error = None\<rparr> \<and>
         length (map as_source_item (take 5 (rankResults (ra @ rc) (effectiveQuery given cx))))
           = min 5 (length ra + length rc)"
  using assms
  by (simp add: WebSearchTool_execute_def effectiveSources_def Let_def length_rankResults)

theorem execute_isolates_failed_source_witness:
  "p_sources params_ABC = Some [''A'', ''B'', ''C''] \<and>
   effectiveQuery params_ABC context_audio = ''audio issue'' \<and>
   (\<exists>obs. WebSearchTool_execute fetch_ABC service_down params_ABC context_audio =
         Inr \<lparr>observation = obs,
              result_sources = Some (map as_source_item
                 (take 5 (rankResults ([same_page] @ [same_page]) ''audio issue''))),
              result_error = None\<rparr> \<and>
    length (map as_source_item (take 5 (rankResults ([same_page] @ [same_page]) ''audio issue'')))
      = min 5 (length [same_page] + length [same_page]))"
proof -
  have q: "effectiveQuery params_ABC context_audio = ''audio issue''"
    by (simp add: effectiveQuery_def params_ABC_def)
  have s: "p_sources params_ABC = Some [''A'', ''B'', ''C'']"
    by (simp add: params_ABC_def)
  have a: "fetch_ABC ''A'' (effectiveQuery params_ABC context_audio) = Inr [same_page]"
    by (simp add: fetch_ABC_def)
  have b: "fetch_ABC ''B'' (effectiveQuery params_ABC context_audio)
             = Inl (Error ''connect ECONNREFUSED'')"
    by (simp add: fetch_ABC_def)
  have c: "fetch_ABC ''C'' (effectiveQuery params_ABC context_audio) = Inr [same_page]"
    by (simp add: fetch_ABC_def)
  from execute_isolates_failed_source
         [where given = params_ABC and searchSource = fetch_ABC and cx = context_audio
            and claudeClient = service_down, OF s a b c] q s
  show ?thesis by simp
qed

section \<open>Properties of the planner\<close>

lemma afterFirst_None:
  "label \<noteq> [] \<Longrightarrow> \<not> str_includes reply label \<Longrightarrow> afterFirst label reply = None"
  by (induction reply) auto

text \<open>
  Without an action name and without a finish flag, the parse reaches its default branch,
  and that branch raises.
\<close>

lemma parseActionResponse_default_raises:
  assumes "\<not> str_includes reply ''Action:''"
    and "finalAnswerMatch reply = None \<or> map_option toLowerCase (finalAnswerMatch reply) = Some ''false''"
  shows "parseActionResponse reply = Inl (ReferenceError ''state is not defined'')"
proof -
  have "matchGroup ''Action:'' [''Action Parameters:''] reply = None"
    using assms(1) by (simp add: matchGroup_def afterFirst_None)
  moreover have "(case finalAnswerMatch reply of
                    Some g \<Rightarrow> toLowerCase g = ''true'' | None \<Rightarrow> False) = False"
    using assms(2) by (auto split: option.splits)
  ultimately show ?thesis
    by (simp add: parseActionResponse_def Let_def)
qed

text \<open>A parsed plan that does not finish names an action, and so does the fallback plan.\<close>

lemma parseActionResponse_action:
  "parseActionResponse reply = Inr d \<Longrightarrow> shouldFinish d \<or> action d \<noteq> None"
  by (auto simp: parseActionResponse_def Let_def split: if_splits)

lemma planNextAction_action:
  "shouldFinish (planNextAction llmClient st ds) \<or> action (planNextAction llmClient st ds) \<noteq> None"
  by (auto simp: planNextAction_def fallbackPlan_def split: sum.splits
        dest: parseActionResponse_action)

text \<open>
  C4 (a reply without an \<open>Action:\<close> segment whose \<open>Final Answer:\<close> is \<open>false\<close> or absent makes
  \<open>planNextAction\<close> return \<open>shouldFinish = false\<close> and the default action \<open>search\<close> on the
  original query; no plan of the planner lacks both an action and the finish flag).  The
  plan is the one of the \<open>catch\<close>, so its thought is the error message.
\<close>

theorem planNextAction_default_action:
  assumes "llmClient (PlanningPrompt st tools) (tokens_and_temperature 500 0.2)
             = Inr \<lparr>reply_text = reply, usage = u\<rparr>"
    and "\<not> str_includes reply ''Action:''"
    and "finalAnswerMatch reply = None \<or> map_option toLowerCase (finalAnswerMatch reply) = Some ''false''"
  shows "planNextAction llmClient st tools =
           \<lparr>thought = ''Error planning next action: state is not defined'',
            action = Some \<lparr>name = ''search'', params = JObject [(''query'', JString (query st))]\<rparr>,
            shouldFinish = False\<rparr> \<and>
         (shouldFinish (planNextAction anyClient anyState anyTools) \<or>
          action (planNextAction anyClient anyState anyTools) \<noteq> None)"
proof -
  have "parseActionResponse reply = Inl (ReferenceError ''state is not defined'')"
    using assms(2,3) by (rule parseActionResponse_default_raises)
  with assms(1) have "planNextAction llmClient st tools =
           \<lparr>thought = ''Error planning next action: state is not defined'',
            action = Some \<lparr>name = ''search'', params = JObject [(''query'', JString (query st))]\<rparr>,
            shouldFinish = False\<rparr>"
    by (simp add: planNextAction_def fallbackPlan_def)
  then show ?thesis
    using planNextAction_action [of anyClient anyState anyTools] by blast
qed

theorem planNextAction_default_action_witness:
  "\<not> str_includes thought_only ''Action:'' \<and> finalAnswerMatch thought_only = None \<and>
   planNextAction undecided_service (initializeState ''My audio is not working'' []) [] =
     \<lparr>thought = ''Error planning next action: state is not defined'',
      action = Some \<lparr>name = ''search'',
                     params = JObject [(''query'', JString ''My audio is not working'')]\<rparr>,
      shouldFinish = False\<rparr>"
proof -
  have a: "undecided_service (PlanningPrompt (initializeState ''My audio is not working'' []) [])
             (tokens_and_temperature 500 0.2) = Inr \<lparr>reply_text = thought_only, usage = no_usage\<rparr>"
    by (simp add: undecided_service_def)
  have b: "\<not> str_includes thought_only ''Action:''"
    by (simp add: thought_only_def)
  have c: "finalAnswerMatch thought_only = None"
    by (simp add: thought_only_def finalAnswerAt_def lowerChar_def codeUnit_def)
  from c have d: "finalAnswerMatch thought_only = None \<or>
      map_option toLowerCase (finalAnswerMatch thought_only) = Some ''false''" by simp
  from planNextAction_default_action
         [where llmClient = undecided_service and tools = "[]" and reply = thought_only
            and anyClient = undecided_service and anyTools = "[]"
            and anyState = "initializeState ''My audio is not working'' []", OF a b d] b c
  show ?thesis
    by (simp add: initializeState_def)
qed

text \<open>
  C6 (the reply \<open>Thought: X\<close>, \<open>Action: search\<close>, \<open>Action Parameters: {"query":"audio issue"}\<close>,
  \<open>Final Answer: false\<close> on four lines parses to the reasoning \<open>X\<close>, the action \<open>search\<close>
  with the parameter \<open>query = "audio issue"\<close>, and \<open>shouldFinish = false\<close>).
\<close>

theorem parseActionResponse_example:
  "parseActionResponse example_reply =
     Inr \<lparr>thought = ''X'',
          action = Some \<lparr>name = ''search'', params = JObject [(''query'', JString ''audio issue'')]\<rparr>,
          shouldFinish = False\<rparr>"
proof -
  have thought_group:
    "matchGroup ''Thought:'' [''Action:'', ''Final Answer:''] example_reply
       = Some ('' X'' @ [CHR 0x0A])"
    by (simp add: matchGroup_def example_reply_def)
  have action_group:
    "matchGroup ''Action:'' [''Action Parameters:''] example_reply
       = Some ('' search'' @ [CHR 0x0A])"
    by (simp add: matchGroup_def example_reply_def)
  have params_group:
    \<open>matchGroup ''Action Parameters:'' [''Final Answer:''] example_reply
       = Some ('' {"query":"audio issue"}'' @ [CHR 0x0A])\<close>
    by (simp add: matchGroup_def example_reply_def)
  have final_group: "finalAnswerMatch example_reply = Some ''false''"
    by (simp add: example_reply_def finalAnswerAt_def lowerChar_def isSpace_def codeUnit_def)
  have parsed:
    \<open>parseParams ('' {"query":"audio issue"}'' @ [CHR 0x0A])
       = JObject [(''query'', JString ''audio issue'')]\<close>
    by (simp add: parseParams_def trim_def isSpace_def JSON_parse_def eval_nat_numeral
          jsonSpace_def codeUnit_def isDigit_def escapeChar_def)
  have trimmed: "trim ('' X'' @ [CHR 0x0A]) = ''X''" "trim ('' search'' @ [CHR 0x0A]) = ''search''"
    by (simp_all add: trim_def isSpace_def)
  have lowered: "toLowerCase ''false'' = ''false''"
    by (simp add: toLowerCase_def lowerChar_def codeUnit_def)
  show ?thesis
    unfolding parseActionResponse_def thought_group action_group params_group final_group
    by (simp add: parsed trimmed lowered del: append.simps)
qed

section \<open>Properties of the controller\<close>

text \<open>With an action at hand \<open>executeAction\<close> returns a result, whatever the tool does.\<close>

lemma executeAction_returns: "\<exists>r. executeAction tools (Some a) st = Inr r"
  by (simp add: executeAction_def split: lookup.splits sum.splits)

text \<open>A name that \<open>this.tools[name]\<close> does not find gives the not-found result.\<close>

lemma executeAction_not_found:
  "map_of tools (name a) = None \<Longrightarrow> name a \<notin> set objectPrototypeKeys \<Longrightarrow>
   executeAction tools (Some a) st =
     Inr \<lparr>observation = ''Error: Tool '' @ [CHR 0x27] @ name a @ [CHR 0x27] @ '' not found'',
          result_sources = None, result_error = Some ''TOOL_NOT_FOUND''\<rparr>"
  by (simp add: executeAction_def getTool_def)

text \<open>The error of a registered tool becomes a result that carries its message twice.\<close>

lemma executeAction_tool_raises:
  "map_of tools (name a) = Some t \<Longrightarrow>
   execute t (params a) \<lparr>c_query = query st, c_context = ctxt st\<rparr> = Inl e \<Longrightarrow>
   executeAction tools (Some a) st =
     Inr \<lparr>observation = ''Error executing '' @ name a @ '': '' @ message e,
          result_sources = None, result_error = Some (message e)\<rparr>"
  by (simp add: executeAction_def getTool_def executionError_def)

text \<open>
  C8 (\<open>executeAction\<close> never throws; every unregistered name gives the error
  \<open>TOOL_NOT_FOUND\<close>; the exception of a tool is returned as observation and error).  The
  code breaks the second part for the names that the table of the toolbox inherits.  In the
  toolbox of the agent, which holds the tool \<open>search\<close> only, the unregistered name
  \<open>constructor\<close> does not give \<open>TOOL_NOT_FOUND\<close> but the message of a \<open>TypeError\<close>.
\<close>

theorem executeAction_inherited_name:
  "map_of agent_toolbox ''constructor'' = None \<and>
   executeAction agent_toolbox (Some \<lparr>name = ''constructor'', params = JObject []\<rparr>)
       (initializeState ''My audio is not working'' []) =
     Inr \<lparr>observation = ''Error executing constructor: tool.execute is not a function'',
          result_sources = None,
          result_error = Some ''tool.execute is not a function''\<rparr>"
  by (simp add: agent_toolbox_def registerTool_def webSearchTool_def executeAction_def
        getTool_def objectPrototypeKeys_def executionError_def)

section \<open>Properties of the reasoning loop\<close>

text \<open>
  One pass through the loop body when neither the planner nor the controller raises and
  every plan that does not finish names an action: the pass ends the loop with an answer
  after two planner calls, or goes on after one call with the answer untouched, or goes on
  after two calls with an answer and the ceiling reached.
\<close>

lemma loopBody_outcome:
  assumes plan: "\<And>s. \<exists>d. planner_planNextAction fw s tools = Inr d \<and> (shouldFinish d \<or> action d \<noteq> None)"
    and final: "\<And>s. \<exists>a. planner_generateFinalAnswer fw s = Inr a"
    and exec: "\<And>a s. \<exists>r. controller_executeAction fw (Some a) s = Inr r"
  shows "\<exists>st'. iterations st' = iterations st + 1 \<and>
           (loopBody fw tools st = (Break st', 2) \<and> finalAnswer st' \<noteq> None \<and>
              (\<exists>s d. planner_planNextAction fw s tools = Inr d \<and> shouldFinish d)
            \<or> loopBody fw tools st = (Continue st', 1) \<and> finalAnswer st' = finalAnswer st \<and>
              (iterations st' < maxIterations fw \<or> answered st)
            \<or> loopBody fw tools st = (Continue st', 2) \<and> finalAnswer st' \<noteq> None \<and>
              maxIterations fw \<le> iterations st')"
proof -
  define st1 where "st1 = updateState st (no_updates\<lparr>u_iterations := Some (iterations st + 1)\<rparr>)"
  have it1: "iterations st1 = iterations st + 1" and fa1: "finalAnswer st1 = finalAnswer st"
    by (simp_all add: st1_def updateState_def spread_def no_updates_def)
  from plan obtain d where d: "planner_planNextAction fw st1 tools = Inr d"
    and dact: "shouldFinish d \<or> action d \<noteq> None" by blast
  define st2 where "st2 = addReasoning st1 (thought d)"
  have it2: "iterations st2 = iterations st + 1" and fa2: "finalAnswer st2 = finalAnswer st"
    by (simp_all add: st2_def addReasoning_def it1 fa1)
  show ?thesis
  proof (cases "shouldFinish d")
    case True
    from final obtain a where a: "planner_generateFinalAnswer fw st2 = Inr a" by blast
    have "loopBody fw tools st = (Break (setFinalAnswer st2 a), 2)"
      using d a True by (simp add: loopBody_def Let_def st1_def st2_def)
    moreover have "iterations (setFinalAnswer st2 a) = iterations st + 1"
      "finalAnswer (setFinalAnswer st2 a) \<noteq> None"
      by (simp_all add: setFinalAnswer_def it2)
    ultimately show ?thesis using d True by blast
  next
    case False
    with dact obtain act where act: "action d = Some act" by auto
    from exec obtain r where r: "controller_executeAction fw (Some act) st2 = Inr r" by blast
    define st3 where "st3 = addObservation st2 (observation r) (name act)"
    define st4 where "st4 = (case result_sources r of
                               Some s \<Rightarrow> updateState st3 (no_updates\<lparr>u_sources := Some s\<rparr>)
                             | None \<Rightarrow> st3)"
    have it3: "iterations st3 = iterations st + 1" and fa3: "finalAnswer st3 = finalAnswer st"
      by (simp_all add: st3_def addObservation_def it2 fa2)
    have it4: "iterations st4 = iterations st + 1" and fa4: "finalAnswer st4 = finalAnswer st"
      by (simp_all add: st4_def updateState_def spread_def no_updates_def it3 fa3
            split: option.splits)
    have ans3: "answered st3 = answered st"
      by (simp add: answered_def fa3)
    show ?thesis
    proof (cases "maxIterations fw \<le> iterations st3 \<and> \<not> answered st3")
      case True
      from final obtain a where a: "planner_generateFinalAnswer fw st3 = Inr a" by blast
      have "loopBody fw tools st = (Continue (setFinalAnswer st4 a), 2)"
        using d \<open>\<not> shouldFinish d\<close> act r a True
        unfolding loopBody_def st1_def st2_def st3_def st4_def
        by (simp add: Let_def cong: option.case_cong)
      moreover have "iterations (setFinalAnswer st4 a) = iterations st + 1"
        "finalAnswer (setFinalAnswer st4 a) \<noteq> None"
        by (simp_all add: setFinalAnswer_def it4)
      moreover have "maxIterations fw \<le> iterations (setFinalAnswer st4 a)"
        using True by (simp add: setFinalAnswer_def it4 it3)
      ultimately show ?thesis by blast
    next
      case notforced: False
      have "loopBody fw tools st = (Continue st4, 1)"
        using d \<open>\<not> shouldFinish d\<close> act r notforced
        unfolding loopBody_def st1_def st2_def st3_def st4_def
        by (auto simp: Let_def cong: option.case_cong)
      moreover have "iterations st4 < maxIterations fw \<or> answered st"
        using notforced by (auto simp: it3 it4 ans3)
      ultimately show ?thesis using it4 fa4 by blast
    qed
  qed
qed
text \<open>
  The whole loop under the same assumptions: it returns a state; the rounds it ran are the
  increase of \<open>iterations\<close>; the planner calls are at most one more than the rounds;
  \<open>iterations\<close> stays within the ceiling; an answer is set on exit when the loop was
  entered below the ceiling; and when no plan ever finishes, the loop stops exactly at
  the ceiling.
\<close>

lemma whileLoop_run:
  assumes plan: "\<And>s. \<exists>d. planner_planNextAction fw s tools = Inr d \<and> (shouldFinish d \<or> action d \<noteq> None)"
    and final: "\<And>s. \<exists>a. planner_generateFinalAnswer fw s = Inr a"
    and exec: "\<And>a s. \<exists>r. controller_executeAction fw (Some a) s = Inr r"
  shows "\<exists>st' c'. whileLoop fw tools st c = (Inr st', c') \<and>
           rounds c' + iterations st = rounds c + iterations st' \<and>
           iterations st \<le> iterations st' \<and>
           plannerCalls c' \<le> plannerCalls c + (iterations st' - iterations st) + 1 \<and>
           (iterations st \<le> maxIterations fw \<longrightarrow> iterations st' \<le> maxIterations fw) \<and>
           (iterations st < maxIterations fw \<or> finalAnswer st \<noteq> None \<longrightarrow> finalAnswer st' \<noteq> None) \<and>
           ((\<forall>s d. planner_planNextAction fw s tools = Inr d \<longrightarrow> \<not> shouldFinish d) \<and>
            \<not> answered st \<and> iterations st \<le> maxIterations fw \<longrightarrow>
              iterations st' = maxIterations fw)"
  using assms
proof (induction fw tools st c rule: whileLoop.induct)
  case (1 fw tools st c)
  note plan = "1.prems"(1) and final = "1.prems"(2) and exec = "1.prems"(3)
  show ?case
  proof (cases "iterations st < maxIterations fw \<and> \<not> answered st")
    case False
    then have "whileLoop fw tools st c = (Inr st, c)"
      by (subst whileLoop.simps) auto
    with False show ?thesis
      by (auto simp: answered_def split: option.splits)
  next
    case True
    define c1 where "c1 k = called k (c\<lparr>rounds := rounds c + 1\<rparr>)" for k
    have c1: "rounds (c1 k) = rounds c + 1" "plannerCalls (c1 k) = plannerCalls c + k" for k
      by (simp_all add: c1_def called_def)
    from loopBody_outcome [OF plan final exec, of st]
    obtain st1 where it1: "iterations st1 = iterations st + 1"
      and outcome: "loopBody fw tools st = (Break st1, 2) \<and> finalAnswer st1 \<noteq> None \<and>
              (\<exists>s d. planner_planNextAction fw s tools = Inr d \<and> shouldFinish d)
            \<or> loopBody fw tools st = (Continue st1, 1) \<and> finalAnswer st1 = finalAnswer st \<and>
              (iterations st1 < maxIterations fw \<or> answered st)
            \<or> loopBody fw tools st = (Continue st1, 2) \<and> finalAnswer st1 \<noteq> None \<and>
              maxIterations fw \<le> iterations st1"
      by blast
    from outcome consider
        (finish) "loopBody fw tools st = (Break st1, 2)" "finalAnswer st1 \<noteq> None"
          "\<exists>s d. planner_planNextAction fw s tools = Inr d \<and> shouldFinish d"
      | (go_on) "loopBody fw tools st = (Continue st1, 1)" "finalAnswer st1 = finalAnswer st"
          "iterations st1 < maxIterations fw"
      | (forced) "loopBody fw tools st = (Continue st1, 2)" "finalAnswer st1 \<noteq> None"
          "maxIterations fw \<le> iterations st1"
      using True by blast
    then show ?thesis
    proof cases
      case finish
      have "whileLoop fw tools st c = (Inr st1, c1 2)"
        using True finish(1) by (subst whileLoop.simps) (simp add: c1_def)
      with finish(2,3) it1 True c1 show ?thesis by auto
    next
      case go_on
      have unfold: "whileLoop fw tools st c = whileLoop fw tools st1 (c1 1)"
        using True go_on(1) by (subst whileLoop.simps) (simp add: c1_def)
      from "1.IH" [OF True go_on(1) [symmetric] refl plan final exec]
      obtain st' c' where run: "whileLoop fw tools st1 (c1 1) = (Inr st', c')"
        and r: "rounds c' + iterations st1 = rounds (c1 1) + iterations st'"
        and mono: "iterations st1 \<le> iterations st'"
        and calls: "plannerCalls c' \<le> plannerCalls (c1 1) + (iterations st' - iterations st1) + 1"
        and ceil: "iterations st1 \<le> maxIterations fw \<longrightarrow> iterations st' \<le> maxIterations fw"
        and ans: "iterations st1 < maxIterations fw \<or> finalAnswer st1 \<noteq> None \<longrightarrow> finalAnswer st' \<noteq> None"
        and never: "(\<forall>s d. planner_planNextAction fw s tools = Inr d \<longrightarrow> \<not> shouldFinish d) \<and>
            \<not> answered st1 \<and> iterations st1 \<le> maxIterations fw \<longrightarrow>
              iterations st' = maxIterations fw"
        unfolding c1_def by blast
      have ans1: "answered st1 = answered st"
        by (simp add: answered_def go_on(2))
      from unfold run r mono calls ceil ans never it1 go_on(3) True c1 ans1
      show ?thesis by auto
    next
      case forced
      have "whileLoop fw tools st c = whileLoop fw tools st1 (c1 2)"
        using True forced(1) by (subst whileLoop.simps) (simp add: c1_def)
      moreover have "whileLoop fw tools st1 (c1 2) = (Inr st1, c1 2)"
        using forced(3) by (subst whileLoop.simps) simp
      ultimately have "whileLoop fw tools st c = (Inr st1, c1 2)" by simp
      with forced(2,3) it1 True c1 show ?thesis by auto
    qed
  qed
qed

lemma maxIterations_agentFramework:
  "maxIterations (agentFramework llmClient tools config) =
     (case cfg_maxIterations config of Some n \<Rightarrow> if n \<noteq> 0 then n else 5 | None \<Rightarrow> 5)"
  by (simp add: agentFramework_def ReActFramework_def)

lemma maxIterations_agentFramework_pos: "0 < maxIterations (agentFramework llmClient tools config)"
  by (simp add: maxIterations_agentFramework split: option.splits)

lemma answer_formatResponse: "answer (formatResponse fw st) \<noteq> []"
  by (auto simp: formatResponse_def Let_def answered_def split: option.splits)

text \<open>
  C1 (for every behaviour of the planner the loop terminates: at most \<open>maxIterations\<close>
  rounds, at most \<open>maxIterations + 1\<close> planner calls, the answer of the session set on exit
  and the answer of the response non-empty; when the planner never finishes, exactly
  \<open>maxIterations\<close> rounds).  The planner is the \<open>Planner\<close> over an arbitrary completion
  service, the controller the \<open>Controller\<close> over an arbitrary toolbox, the ceiling the one
  the constructor derives from an arbitrary configuration.
\<close>

theorem executeReActLoop_terminates:
  "\<exists>st n. executeReActLoop (agentFramework llmClient tools config) (initializeState q c) = (Inr st, n) \<and>
     rounds n \<le> maxIterations (agentFramework llmClient tools config) \<and>
     iterations st = rounds n \<and>
     plannerCalls n \<le> maxIterations (agentFramework llmClient tools config) + 1 \<and>
     finalAnswer st \<noteq> None \<and>
     process (agentFramework llmClient tools config) q c
       = formatResponse (agentFramework llmClient tools config) st \<and>
     answer (process (agentFramework llmClient tools config) q c) \<noteq> [] \<and>
     ((\<forall>s ds. \<not> shouldFinish (planNextAction llmClient s ds)) \<longrightarrow>
        rounds n = maxIterations (agentFramework llmClient tools config))"
proof -
  let ?fw = "agentFramework llmClient tools config"
  let ?s0 = "initializeState q c"
  let ?c0 = "\<lparr>rounds = 0, plannerCalls = 0\<rparr>"
  have plan: "\<exists>d. planner_planNextAction ?fw s (controller_listTools ?fw) = Inr d \<and>
                (shouldFinish d \<or> action d \<noteq> None)" for s
    using planNextAction_action [of llmClient s "listTools tools"]
    by (auto simp: agentFramework_def ReActFramework_def)
  have final: "\<exists>a. planner_generateFinalAnswer ?fw s = Inr a" for s
    by (simp add: agentFramework_def ReActFramework_def)
  have exec: "\<exists>r. controller_executeAction ?fw (Some a) s = Inr r" for a s
    by (simp add: agentFramework_def ReActFramework_def executeAction_returns)
  have s0: "iterations ?s0 = 0" "finalAnswer ?s0 = None" "\<not> answered ?s0"
    by (simp_all add: initializeState_def answered_def)
  from whileLoop_run [OF plan final exec, of ?s0 ?c0]
  obtain st n where run: "whileLoop ?fw (controller_listTools ?fw) ?s0 ?c0 = (Inr st, n)"
    and r: "rounds n + iterations ?s0 = rounds ?c0 + iterations st"
    and calls: "plannerCalls n \<le> plannerCalls ?c0 + (iterations st - iterations ?s0) + 1"
    and ceil: "iterations ?s0 \<le> maxIterations ?fw \<longrightarrow> iterations st \<le> maxIterations ?fw"
    and ans: "iterations ?s0 < maxIterations ?fw \<or> finalAnswer ?s0 \<noteq> None \<longrightarrow> finalAnswer st \<noteq> None"
    and never: "(\<forall>s d. planner_planNextAction ?fw s (controller_listTools ?fw) = Inr d \<longrightarrow>
                  \<not> shouldFinish d) \<and> \<not> answered ?s0 \<and> iterations ?s0 \<le> maxIterations ?fw \<longrightarrow>
                iterations st = maxIterations ?fw"
    by blast
  have loop: "executeReActLoop ?fw ?s0 = (Inr st, n)"
    using run by (simp add: executeReActLoop_def)
  have rounds_it: "iterations st = rounds n"
    using r s0(1) by simp
  have bound: "rounds n \<le> maxIterations ?fw"
    using ceil s0(1) rounds_it by simp
  have calls_bound: "plannerCalls n \<le> maxIterations ?fw + 1"
    using calls s0(1) rounds_it bound by simp
  have answer_set: "finalAnswer st \<noteq> None"
    using ans s0(1) maxIterations_agentFramework_pos [of llmClient tools config] by simp
  have resp: "process ?fw q c = formatResponse ?fw st"
    using loop by (simp add: process_def)
  have nonempty: "answer (process ?fw q c) \<noteq> []"
    using resp by (simp add: answer_formatResponse)
  have exact: "(\<forall>s ds. \<not> shouldFinish (planNextAction llmClient s ds)) \<longrightarrow>
                 rounds n = maxIterations ?fw"
  proof
    assume nf: "\<forall>s ds. \<not> shouldFinish (planNextAction llmClient s ds)"
    then have "\<forall>s d. planner_planNextAction ?fw s (controller_listTools ?fw) = Inr d \<longrightarrow>
                 \<not> shouldFinish d"
      by (auto simp: agentFramework_def ReActFramework_def)
    with never s0 rounds_it show "rounds n = maxIterations ?fw" by simp
  qed
  from loop bound rounds_it calls_bound answer_set resp nonempty exact
  show ?thesis by blast
qed

text \<open>
  The completion service that never decides, with the default ceiling 5: five rounds, at most
  six planner calls, a non-empty answer.
\<close>

lemma planNextAction_undecided:
  "planNextAction undecided_service s ds = fallbackPlan (ReferenceError ''state is not defined'') s"
proof -
  have "\<not> str_includes thought_only ''Action:''"
    by (simp add: thought_only_def)
  moreover have "finalAnswerMatch thought_only = None"
    by (simp add: thought_only_def finalAnswerAt_def lowerChar_def codeUnit_def)
  ultimately have "parseActionResponse thought_only = Inl (ReferenceError ''state is not defined'')"
    by (simp add: parseActionResponse_default_raises)
  then show ?thesis
    by (simp add: planNextAction_def undecided_service_def)
qed

theorem executeReActLoop_terminates_witness:
  "(\<forall>s ds. \<not> shouldFinish (planNextAction undecided_service s ds)) \<and>
   rounds (snd (executeReActLoop (agentFramework undecided_service agent_toolbox default_config)
                  (initializeState ''My audio is not working'' []))) = 5 \<and>
   plannerCalls (snd (executeReActLoop (agentFramework undecided_service agent_toolbox default_config)
                  (initializeState ''My audio is not working'' []))) \<le> 6 \<and>
   answer (process (agentFramework undecided_service agent_toolbox default_config)
             ''My audio is not working'' []) \<noteq> []"
proof -
  have nf: "\<forall>s ds. \<not> shouldFinish (planNextAction undecided_service s ds)"
    by (simp add: planNextAction_undecided fallbackPlan_def)
  have five: "maxIterations (agentFramework undecided_service agent_toolbox default_config) = 5"
    by (simp add: maxIterations_agentFramework default_config_def)
  from executeReActLoop_terminates
         [of undecided_service agent_toolbox default_config "''My audio is not working''" "[]"]
       nf five
  show ?thesis by auto
qed

text \<open>
  C9 (\<open>process\<close> never propagates an exception: when a component inside the loop raises,
  \<open>process\<close> returns a response whose answer explains the error and whose sources are empty).
  \<open>process\<close> is a function into responses; the loop ends with an error or with a state, and
  the response is given for both.
\<close>

theorem process_catches:
  "(\<forall>e. fst (executeReActLoop fw (initializeState q c)) = Inl e \<longrightarrow>
      process fw q c =
        \<lparr>answer = ''I encountered an error while processing your query: '' @ message e @
                  ''. Please try again or rephrase your question.'',
         response_sources = [],
         response_error = Some (message e),
         debugInfo = None\<rparr>) \<and>
   (\<forall>st. fst (executeReActLoop fw (initializeState q c)) = Inr st \<longrightarrow>
      process fw q c = formatResponse fw st) \<and>
   answer (process fw q c) \<noteq> []"
  by (cases "fst (executeReActLoop fw (initializeState q c))")
     (simp_all add: process_def errorResponse_def answer_formatResponse)

theorem process_catches_witness:
  "fst (executeReActLoop rejecting_framework (initializeState ''My audio is not working'' []))
     = Inl (Error ''planner unavailable'') \<and>
   process rejecting_framework ''My audio is not working'' [] =
     \<lparr>answer = ''I encountered an error while processing your query: planner unavailable. Please try again or rephrase your question.'',
      response_sources = [],
      response_error = Some ''planner unavailable'',
      debugInfo = None\<rparr>"
proof -
  have raised: "fst (executeReActLoop rejecting_framework
                       (initializeState ''My audio is not working'' []))
                  = Inl (Error ''planner unavailable'')"
    by (simp add: executeReActLoop_def whileLoop.simps loopBody_def rejecting_framework_def
          ReActFramework_def default_config_def initializeState_def answered_def)
  with process_catches [of rejecting_framework "''My audio is not working''" "[]"]
  show ?thesis by simp
qed

section \<open>A call of \<open>process\<close> that runs alone\<close>

text \<open>
  The function \<open>process\<close> is what a call does when nothing interrupts it: started and
  resumed on the store until it returns, from any contents of the store, a call gives the
  response of \<open>process\<close>.
\<close>

lemma steps_add: "steps fw (m + n) cfg = steps fw n (steps fw m cfg)"
  by (induction m arbitrary: cfg) simp_all

lemma steps_2: "steps fw 1 cfg = (s, h) \<Longrightarrow> steps fw 2 cfg = resume fw s h"
  using steps_add [of fw 1 1 cfg] by (simp add: numeral_2_eq_2)

lemma steps_3: "steps fw 2 cfg = (s, h) \<Longrightarrow> steps fw 3 cfg = resume fw s h"
  using steps_add [of fw 2 1 cfg] by (simp add: numeral_3_eq_3 numeral_2_eq_2)

lemma steps_Returned: "steps fw n (Returned r, h) = (Returned r, h)"
  by (induction n) simp_all

lemma holds_initializeState:
  "holds (store_initializeState q c h) (this_state (store_initializeState q c h)) (initializeState q c)"
  by (simp add: holds_def store_initializeState_def view_def nth_append)

lemma conversation_updateState:
  "u_conversation u = None \<Longrightarrow> conversation (updateState st u) = conversation st"
  by (simp add: updateState_def spread_def split: option.splits)

lemma holds_updateState:
  assumes "holds h a st" and "u_conversation u = None"
  shows "holds (store_updateState u h) (this_state (store_updateState u h)) (updateState st u)"
    and "view (store_updateState u h) a = st"
proof -
  from assms(1) have a: "a = this_state h" "a < length (objects h)"
    "conversation_ref (objects h ! a) < length (arrays h)" "view h a = st"
    by (auto simp: holds_def)
  have c: "conversation (updateState st u) = conversation st"
    using assms(2) by (rule conversation_updateState)
  have "conversation st = arrays h ! conversation_ref (objects h ! a)"
    using a(4) by (auto simp: view_def)
  with a c show "holds (store_updateState u h) (this_state (store_updateState u h)) (updateState st u)"
    by (simp add: holds_def store_updateState_def view_def nth_append)
  from a show "view (store_updateState u h) a = st"
    by (simp add: store_updateState_def view_def nth_append)
qed

lemma holds_mutate:
  assumes "holds h a st"
  shows "holds (store_mutate f h) a (f st)"
  using assms
  by (auto simp: holds_def store_mutate_def view_def Let_def)

lemma loopHead_exit:
  assumes "holds h a st" and "\<not> (iterations st < maxIterations fw \<and> \<not> answered st)"
  shows "loopHead fw a h = (Returned (formatResponse fw st), h)"
  using assms by (auto simp: holds_def loopHead_def)

text \<open>
  One pass through the loop body, run alone on the store, ends as \<open>loopBody\<close> says: at the
  next test of the loop in a store that holds the next state, or returned with the
  response of the state or of the error.
\<close>

lemma round_alone:
  assumes I: "holds h a st"
    and head: "iterations st < maxIterations fw \<and> \<not> answered st"
  shows "\<exists>n h'. (case fst (loopBody fw (controller_listTools fw) st) of
             Continue st' \<Rightarrow> steps fw n (loopHead fw a h) = loopHead fw (this_state h') h' \<and>
                             holds h' (this_state h') st'
           | Break st' \<Rightarrow> steps fw n (loopHead fw a h) = (Returned (formatResponse fw st'), h')
           | Throw e \<Rightarrow> steps fw n (loopHead fw a h) = (Returned (errorResponse e), h'))"
proof -
  let ?tools = "controller_listTools fw"
  define u1 where "u1 = no_updates\<lparr>u_iterations := Some (iterations st + 1)\<rparr>"
  define h1 where "h1 = store_updateState u1 h"
  define a1 where "a1 = this_state h1"
  define st1 where "st1 = updateState st u1"
  have u1c: "u_conversation u1 = None" by (simp add: u1_def no_updates_def)
  have I1: "holds h1 a1 st1"
    unfolding h1_def a1_def st1_def using I u1c by (rule holds_updateState(1))
  have va: "view h a = st" using I by (auto simp: holds_def)
  have enter: "loopHead fw a h = (AwaitingPlan a1 (planner_planNextAction fw st1 ?tools), h1)"
    using head I1 va
    by (simp add: loopHead_def Let_def holds_def h1_def a1_def u1_def st1_def)
  show ?thesis
  proof (cases "planner_planNextAction fw st1 ?tools")
    case (Inl e)
    have "loopBody fw ?tools st = (Throw e, 1)"
      using Inl unfolding loopBody_def st1_def u1_def by (simp add: Let_def)
    moreover have "steps fw 1 (loopHead fw a h) = (Returned (errorResponse e), h1)"
      using enter Inl by simp
    ultimately show ?thesis by (intro exI [of _ 1] exI [of _ h1]) simp
  next
    case (Inr d)
    define h2 where "h2 = store_mutate (\<lambda>s. addReasoning s (thought d)) h1"
    define st2 where "st2 = addReasoning st1 (thought d)"
    have I2: "holds h2 a1 st2"
      unfolding h2_def st2_def using I1 by (rule holds_mutate)
    have v2: "view h2 a1 = st2" and t2: "this_state h2 = a1"
      using I2 by (auto simp: holds_def)
    show ?thesis
    proof (cases "shouldFinish d")
      case True
      have s1: "steps fw 1 (loopHead fw a h) = (AwaitingAnswer a1 (planner_generateFinalAnswer fw st2), h2)"
        using enter Inr True v2 by (simp add: Let_def h2_def [symmetric])
      show ?thesis
      proof (cases "planner_generateFinalAnswer fw st2")
        case (Inl e)
        have "loopBody fw ?tools st = (Throw e, 2)"
          using Inr True Inl
          unfolding loopBody_def st1_def u1_def st2_def by (simp add: Let_def)
        moreover have "steps fw 2 (loopHead fw a h) = (Returned (errorResponse e), h2)"
          using steps_2 [OF s1] Inl by simp
        ultimately show ?thesis by (intro exI [of _ 2] exI [of _ h2]) simp
      next
        case final: (Inr f)
        define h3 where "h3 = store_mutate (\<lambda>s. setFinalAnswer s f) h2"
        have I3: "holds h3 a1 (setFinalAnswer st2 f)"
          unfolding h3_def using I2 by (rule holds_mutate)
        have v3: "view h3 (this_state h3) = setFinalAnswer st2 f"
          using I3 by (auto simp: holds_def)
        have "loopBody fw ?tools st = (Break (setFinalAnswer st2 f), 2)"
          using Inr True final
          unfolding loopBody_def st1_def u1_def st2_def by (simp add: Let_def)
        moreover have "steps fw 2 (loopHead fw a h)
                         = (Returned (formatResponse fw (setFinalAnswer st2 f)), h3)"
          using steps_2 [OF s1] final v3
          by (simp add: Let_def h3_def [symmetric])
        ultimately show ?thesis by (intro exI [of _ 2] exI [of _ h3]) simp
      qed
    next
      case False
      have s1: "steps fw 1 (loopHead fw a h)
                  = (AwaitingAction a1 d (controller_executeAction fw (action d) st2), h2)"
        using enter Inr False v2 by (simp add: Let_def h2_def [symmetric])
      show ?thesis
      proof (cases "controller_executeAction fw (action d) st2")
        case (Inl e)
        have "loopBody fw ?tools st = (Throw e, 1)"
          using Inr False Inl
          unfolding loopBody_def st1_def u1_def st2_def by (simp add: Let_def)
        moreover have "steps fw 2 (loopHead fw a h) = (Returned (errorResponse e), h2)"
          using steps_2 [OF s1] Inl by simp
        ultimately show ?thesis by (intro exI [of _ 2] exI [of _ h2]) simp
      next
        case result: (Inr r)
        show ?thesis
        proof (cases "action d")
          case None
          have "loopBody fw ?tools st =
                  (Throw (TypeError ''Cannot read properties of null (reading 'name')''), 1)"
            using Inr False result None
            unfolding loopBody_def st1_def u1_def st2_def by (simp add: Let_def)
          moreover have "steps fw 2 (loopHead fw a h) =
                  (Returned (errorResponse (TypeError ''Cannot read properties of null (reading 'name')'')), h2)"
            using steps_2 [OF s1] result None by simp
          ultimately show ?thesis by (intro exI [of _ 2] exI [of _ h2]) simp
        next
          case (Some act)
          define h3 where "h3 = store_mutate (\<lambda>s. addObservation s (observation r) (name act)) h2"
          define st3 where "st3 = addObservation st2 (observation r) (name act)"
          define h4 where "h4 = (case result_sources r of
                                   Some srcs \<Rightarrow> store_updateState (no_updates\<lparr>u_sources := Some srcs\<rparr>) h3
                                 | None \<Rightarrow> h3)"
          define st4 where "st4 = (case result_sources r of
                                     Some srcs \<Rightarrow> updateState st3 (no_updates\<lparr>u_sources := Some srcs\<rparr>)
                                   | None \<Rightarrow> st3)"
          have I3: "holds h3 a1 st3"
            unfolding h3_def st3_def using I2 by (rule holds_mutate)
          have I4: "holds h4 (this_state h4) st4" and v4: "view h4 a1 = st3"
          proof -
            show "holds h4 (this_state h4) st4"
            proof (cases "result_sources r")
              case None
              with I3 show ?thesis by (auto simp: h4_def st4_def holds_def)
            next
              case (Some srcs)
              have "u_conversation (no_updates\<lparr>u_sources := Some srcs\<rparr>) = None"
                by (simp add: no_updates_def)
              from holds_updateState(1) [OF I3 this] Some show ?thesis
                by (simp add: h4_def st4_def)
            qed
            show "view h4 a1 = st3"
            proof (cases "result_sources r")
              case None
              with I3 show ?thesis by (auto simp: h4_def holds_def)
            next
              case (Some srcs)
              have "u_conversation (no_updates\<lparr>u_sources := Some srcs\<rparr>) = None"
                by (simp add: no_updates_def)
              from holds_updateState(2) [OF I3 this] Some show ?thesis
                by (simp add: h4_def)
            qed
          qed
          show ?thesis
          proof (cases "maxIterations fw \<le> iterations st3 \<and> \<not> answered st3")
            case forced: True
            have s2: "steps fw 2 (loopHead fw a h)
                        = (AwaitingForcedAnswer a1 (planner_generateFinalAnswer fw st3), h4)"
              using steps_2 [OF s1] result Some forced v4
              by (simp add: Let_def h3_def [symmetric] h4_def [symmetric])
            show ?thesis
            proof (cases "planner_generateFinalAnswer fw st3")
              case (Inl e)
              have "loopBody fw ?tools st = (Throw e, 2)"
                using Inr False result Some forced Inl
                unfolding loopBody_def st1_def u1_def st2_def st3_def
                by (simp add: Let_def)
              moreover have "steps fw 3 (loopHead fw a h) = (Returned (errorResponse e), h4)"
                using steps_3 [OF s2] Inl by simp
              ultimately show ?thesis by (intro exI [of _ 3] exI [of _ h4]) simp
            next
              case final: (Inr f)
              define h5 where "h5 = store_mutate (\<lambda>s. setFinalAnswer s f) h4"
              have I5: "holds h5 (this_state h4) (setFinalAnswer st4 f)"
                unfolding h5_def using I4 by (rule holds_mutate)
              then have t5: "this_state h5 = this_state h4" by (auto simp: holds_def)
              have "loopBody fw ?tools st = (Continue (setFinalAnswer st4 f), 2)"
                using Inr False result Some forced final
                unfolding loopBody_def st1_def u1_def st2_def st3_def st4_def
                by (simp add: Let_def cong: option.case_cong)
              moreover have "steps fw 3 (loopHead fw a h) = loopHead fw (this_state h5) h5"
                using steps_3 [OF s2] final
                by (simp add: Let_def h5_def [symmetric])
              ultimately show ?thesis
                using I5 t5 by (intro exI [of _ 3] exI [of _ h5]) simp
            qed
          next
            case False
            have "loopBody fw ?tools st = (Continue st4, 1)"
              using Inr \<open>\<not> shouldFinish d\<close> result Some False
              unfolding loopBody_def st1_def u1_def st2_def st3_def st4_def
              by (auto simp: Let_def cong: option.case_cong)
            moreover have "steps fw 2 (loopHead fw a h) = loopHead fw (this_state h4) h4"
              using steps_2 [OF s1] result Some False v4
              by (auto simp: Let_def h3_def [symmetric] h4_def [symmetric])
            ultimately show ?thesis
              using I4 by (intro exI [of _ 2] exI [of _ h4]) simp
          qed
        qed
      qed
    qed
  qed
qed

text \<open>The loop, run alone on the store, returns the response of what \<open>whileLoop\<close> gives.\<close>

lemma loop_alone:
  assumes "holds h a st" and "tools = controller_listTools fw"
  shows "\<exists>n h'. steps fw n (loopHead fw a h) =
                  (Returned (respond fw (fst (whileLoop fw tools st c))), h')"
  using assms
proof (induction fw tools st c arbitrary: h a rule: whileLoop.induct)
  case (1 fw tools st c)
  note I = "1.prems"(1) and tools = "1.prems"(2)
  show ?case
  proof (cases "iterations st < maxIterations fw \<and> \<not> answered st")
    case False
    then have "whileLoop fw tools st c = (Inr st, c)"
      by (subst whileLoop.simps) auto
    moreover have "steps fw 0 (loopHead fw a h) = (Returned (formatResponse fw st), h)"
      using loopHead_exit [OF I False] by simp
    ultimately show ?thesis
      by (intro exI [of _ 0] exI [of _ h]) (simp add: respond_def)
  next
    case True
    obtain x k where body: "loopBody fw tools st = (x, k)"
      by (cases "loopBody fw tools st")
    from round_alone [OF I True] tools body
    obtain n h1 where round:
      "case x of
         Continue st' \<Rightarrow> steps fw n (loopHead fw a h) = loopHead fw (this_state h1) h1 \<and>
                         holds h1 (this_state h1) st'
       | Break st' \<Rightarrow> steps fw n (loopHead fw a h) = (Returned (formatResponse fw st'), h1)
       | Throw e \<Rightarrow> steps fw n (loopHead fw a h) = (Returned (errorResponse e), h1)"
      by auto
    let ?c1 = "called k (c\<lparr>rounds := rounds c + 1\<rparr>)"
    show ?thesis
    proof (cases x)
      case (Continue st')
      have unfold: "whileLoop fw tools st c = whileLoop fw tools st' ?c1"
        using True body Continue by (subst whileLoop.simps) simp
      from round Continue
      have first: "steps fw n (loopHead fw a h) = loopHead fw (this_state h1) h1"
        and I1: "holds h1 (this_state h1) st'" by simp_all
      from "1.IH" [OF True body [symmetric] Continue I1 tools]
      obtain m h2 where rest: "steps fw m (loopHead fw (this_state h1) h1) =
          (Returned (respond fw (fst (whileLoop fw tools st' ?c1))), h2)"
        by blast
      have "steps fw (n + m) (loopHead fw a h) =
              (Returned (respond fw (fst (whileLoop fw tools st c))), h2)"
        using first rest unfold by (simp add: steps_add)
      then show ?thesis by blast
    next
      case (Break st')
      have "whileLoop fw tools st c = (Inr st', ?c1)"
        using True body Break by (subst whileLoop.simps) simp
      with round Break show ?thesis
        by (intro exI [of _ n] exI [of _ h1]) (simp add: respond_def)
    next
      case (Throw e)
      have "whileLoop fw tools st c = (Inl e, ?c1)"
        using True body Throw by (subst whileLoop.simps) simp
      with round Throw show ?thesis
        by (intro exI [of _ n] exI [of _ h1]) (simp add: respond_def)
    qed
  qed
qed

lemma process_respond:
  "process fw q c = respond fw (fst (executeReActLoop fw (initializeState q c)))"
  by (simp add: process_def respond_def)

text \<open>
  C5, amended: two sessions processed one after the other on the agent's single store do
  not affect each other.  Whatever the store holds, a call of \<open>process\<close> that runs without
  another call in between returns the response \<open>process\<close> gives on its own, and so does the
  next call on the store the first one leaves.
\<close>

theorem calls_in_sequence_are_isolated:
  "\<exists>n1 h1 n2 h2.
     steps fw n1 (Called q1 c1, h) = (Returned (process fw q1 c1), h1) \<and>
     steps fw n2 (Called q2 c2, h1) = (Returned (process fw q2 c2), h2)"
proof -
  have alone: "\<exists>n h'. steps fw n (Called q c, h0) = (Returned (process fw q c), h')" for q c h0
  proof -
    let ?h1 = "store_initializeState q c h0"
    have "holds ?h1 (this_state ?h1) (initializeState q c)"
      by (rule holds_initializeState)
    from loop_alone [OF this refl, where c = "\<lparr>rounds = 0, plannerCalls = 0\<rparr>" and fw = fw]
    obtain n h' where "steps fw n (loopHead fw (this_state ?h1) ?h1) =
        (Returned (respond fw (fst (whileLoop fw (controller_listTools fw)
           (initializeState q c) \<lparr>rounds = 0, plannerCalls = 0\<rparr>))), h')"
      by blast
    then have "steps fw (Suc n) (Called q c, h0) = (Returned (process fw q c), h')"
      by (simp add: Let_def process_respond executeReActLoop_def)
    then show ?thesis by blast
  qed
  from alone [of q1 c1 h] obtain n1 h1
    where first: "steps fw n1 (Called q1 c1, h) = (Returned (process fw q1 c1), h1)" by blast
  from alone [of q2 c2 h1] obtain n2 h2
    where second: "steps fw n2 (Called q2 c2, h1) = (Returned (process fw q2 c2), h2)" by blast
  from first second show ?thesis by blast
qed

text \<open>The components of the framework of the two users.\<close>

lemma finalAnswerMatch_finishing: "finalAnswerMatch finishing_reply = Some ''true''"
  by (simp add: finishing_reply_def finalAnswerAt_def lowerChar_def isSpace_def codeUnit_def)

lemma parse_finishing:
  "parseActionResponse finishing_reply =
     Inr \<lparr>thought = ''I know this.'', action = None, shouldFinish = True\<rparr>"
proof -
  have thought_group:
    "matchGroup ''Thought:'' [''Action:'', ''Final Answer:''] finishing_reply
       = Some ('' I know this.'' @ [CHR 0x0A])"
    by (simp add: matchGroup_def finishing_reply_def)
  have action_group: "matchGroup ''Action:'' [''Action Parameters:''] finishing_reply = None"
    by (simp add: matchGroup_def finishing_reply_def)
  have params_group: "matchGroup ''Action Parameters:'' [''Final Answer:''] finishing_reply = None"
    by (simp add: matchGroup_def finishing_reply_def)
  have trimmed: "trim ('' I know this.'' @ [CHR 0x0A]) = ''I know this.''"
    by (simp add: trim_def isSpace_def)
  have lowered: "toLowerCase ''true'' = ''true''"
    by (simp add: toLowerCase_def lowerChar_def codeUnit_def)
  show ?thesis
    unfolding parseActionResponse_def thought_group action_group params_group
      finalAnswerMatch_finishing
    by (simp add: trimmed lowered del: append.simps)
qed

lemma two_users_plan:
  "planner_planNextAction two_users_framework st ds =
     Inr (if query st = screen_query
          then \<lparr>thought = ''I know this.'', action = None, shouldFinish = True\<rparr>
          else fallbackPlan (ReferenceError ''state is not defined'') st)"
proof -
  have "\<not> str_includes thought_only ''Action:''"
    by (simp add: thought_only_def)
  moreover have "finalAnswerMatch thought_only = None"
    by (simp add: thought_only_def finalAnswerAt_def lowerChar_def codeUnit_def)
  ultimately have "parseActionResponse thought_only = Inl (ReferenceError ''state is not defined'')"
    by (simp add: parseActionResponse_default_raises)
  then show ?thesis
    by (simp add: two_users_framework_def agentFramework_def ReActFramework_def
          planNextAction_def two_users_service_def parse_finishing)
qed

lemma two_users_answer:
  "planner_generateFinalAnswer two_users_framework st = Inr (''Answer about: '' @ query st)"
  by (simp add: two_users_framework_def agentFramework_def ReActFramework_def
        generateFinalAnswer_def two_users_service_def)

lemma two_users_search:
  "controller_executeAction two_users_framework (Some \<lparr>name = ''search'', params = p\<rparr>) st =
     Inr \<lparr>observation = ''Found 0 results across 3 sources.'', result_sources = Some [],
          result_error = None\<rparr>"
  by (simp add: two_users_framework_def agentFramework_def ReActFramework_def executeAction_def
        getTool_def agent_toolbox_def registerTool_def webSearchTool_def nothing_found_def)

lemma two_users_config:
  "maxIterations two_users_framework = 5" "debug two_users_framework = False"
  by (simp_all add: two_users_framework_def agentFramework_def ReActFramework_def
        default_config_def)

text \<open>
  C5 as stated (two calls of \<open>process\<close> that interleave do not affect each other) fails.  The
  second call starts while the first waits for its plan; the first then finishes and sets
  its answer in the object that \<open>this.model.state\<close> refers to, which by then is the state of
  the second call; the second call finds an answer set at its next test of the loop and
  returns it.  Processed alone, the second query gets its own answer.
\<close>

theorem interleaved_calls_share_the_store:
  "map returned_answer
     (fst (interleave two_users_framework [0, 1, 0, 0, 1, 1]
             [Called screen_query [], Called audio_query []] new_Model))
     = [Some ''Answer about: How do I share my screen?'',
        Some ''Answer about: How do I share my screen?''] \<and>
   answer (process two_users_framework audio_query []) = ''Answer about: My audio is not working''"
proof -
  have apart: "audio_query \<noteq> screen_query"
    by (simp add: audio_query_def screen_query_def)
  have together: "map returned_answer
     (fst (interleave two_users_framework [0, 1, 0, 0, 1, 1]
             [Called screen_query [], Called audio_query []] new_Model))
     = [Some (''Answer about: '' @ screen_query), Some (''Answer about: '' @ screen_query)]"
    using apart
    by (simp add: new_Model_def loopHead_def store_initializeState_def store_updateState_def
          store_mutate_def view_def Let_def two_users_plan two_users_answer two_users_search
          two_users_config initializeState_def updateState_def spread_def no_updates_def
          addReasoning_def addObservation_def setFinalAnswer_def answered_def fallbackPlan_def
          formatResponse_def uniqueByUrl_def nth_append)
  have alone: "answer (process two_users_framework audio_query []) = ''Answer about: '' @ audio_query"
    using apart
    by (simp add: process_def executeReActLoop_def whileLoop.simps loopBody_def Let_def
          two_users_plan two_users_answer two_users_search two_users_config
          initializeState_def updateState_def spread_def no_updates_def
          addReasoning_def addObservation_def setFinalAnswer_def answered_def fallbackPlan_def
          formatResponse_def uniqueByUrl_def called_def)
  from together alone show ?thesis
    by (simp add: screen_query_def audio_query_def)
qed

end
